theory Spec2Isabelle
  imports Main
begin

section \<open>Opaque payloads\<close>

text \<open>
  Everything the clients put on the wire or into a store is a base64 string produced by
  the Web Crypto API (an external collaborator).  The model keeps the structure of such
  a string instead of its characters: which key was exported, which key and nonce a
  ciphertext was made with, what was hashed.  Key material is identified by a number
  (an AES key, or an RSA key pair).
  \<^item> \<open>Text s\<close>: an ordinary string;
  \<^item> \<open>RawKey k\<close>: the raw export of AES key \<open>k\<close>;
  \<^item> \<open>PublicJwk n\<close>, \<open>PrivateJwk n\<close>, \<open>Pkcs8 n\<close>: the exports of the public and of the
    private key of RSA pair \<open>n\<close>;
  \<^item> \<open>Sha256 b\<close>: the SHA-256 digest of \<open>b\<close>;
  \<^item> \<open>Nonce n\<close>: the random bytes of draw \<open>n\<close>;
  \<^item> \<open>AesGcm k nonce b\<close>: \<open>b\<close> encrypted with AES-GCM under key \<open>k\<close> and \<open>nonce\<close>;
  \<^item> \<open>WrappedKey password salt nonce k\<close>: AES key \<open>k\<close> wrapped with AES-GCM under the
    PBKDF2 key of \<open>password\<close> and \<open>salt\<close>, with \<open>nonce\<close>;
  \<^item> \<open>RsaOaep n b\<close>: \<open>b\<close> encrypted with RSA-OAEP for the public key of pair \<open>n\<close>;
  \<^item> \<open>RecoveryKey k salt\<close>: the bytes of AES key \<open>k\<close> followed by a random salt.
\<close>

datatype blob =
    Text string
  | RawKey nat
  | PublicJwk nat
  | PrivateJwk nat
  | Pkcs8 nat
  | Sha256 blob
  | Nonce nat
  | AesGcm nat blob blob
  | WrappedKey blob blob blob nat
  | RsaOaep nat blob
  | RecoveryKey nat nat

text \<open>JavaScript truthiness of a string: only the empty string is falsy.\<close>

fun truthy :: "blob \<Rightarrow> bool" where
  "truthy (Text s) = (s \<noteq> [])"
| "truthy _ = True"

section \<open>Key Directory Service: tables\<close>

type_synonym user_id = string
type_synonym chat_id = string
type_synonym timestamp = nat

text \<open>
  The route \<open>POST /api/keys\<close> stores \<open>JSON.stringify\<close> of the two wrapped-key objects
  and \<open>GET /api/keys/:userId\<close> returns \<open>JSON.parse\<close> of the column; the model keeps the
  objects themselves.
\<close>

record EncryptedMasterKey =
  wrapped :: blob
  iv :: blob
  salt :: blob

record EncryptedRSAPrivateKey =
  encrypted :: blob
  rsa_iv :: blob

text \<open>
  Table \<open>user_keys\<close> (primary key \<open>user_id\<close>; the two wrapped columns are nullable),
  table \<open>chat_keys\<close> (\<open>UNIQUE(chat_id, recipient_id)\<close>), table \<open>chats\<close> (primary key \<open>id\<close>)
  and table \<open>user_profiles\<close>.  Of the columns the key protocol never reads, only
  \<open>updated_at\<close> of \<open>user_keys\<close>, which the code writes itself, is kept.
\<close>

record UserKey =
  user_id :: user_id
  public_key :: blob
  encrypted_master_key :: "EncryptedMasterKey option"
  encrypted_rsa_private_key :: "EncryptedRSAPrivateKey option"
  updated_at :: timestamp

record ChatKey =
  chat_id :: chat_id
  sender_id :: user_id
  recipient_id :: user_id
  encrypted_chat_key :: blob

datatype chat_type = Direct | Group

record Chat =
  id :: chat_id
  type :: chat_type
  participants :: "user_id list"
  created_by :: user_id

record UserProfile =
  profile_id :: user_id
  profile_email :: string

text \<open>
  A row of table \<open>messages\<close>: the ciphertext and, in \<open>metadata\<close>, the nonce it was made
  with (the socket handler \<open>message:send\<close> stores \<open>{...metadata, iv}\<close>).
\<close>

record Message =
  message_chat_id :: chat_id
  message_sender_id :: user_id
  encrypted_content :: blob
  metadata_iv :: "blob option"
  created_at :: timestamp

text \<open>
  The database.  Table \<open>messages\<close> is kept in the order of \<open>created_at\<close>.  Every id column
  has type \<open>UUID\<close>, so the tables hold UUIDs only: a string that is not a UUID is in no table,
  and a write that names it where the schema wants a referenced row is refused like any
  other write that names a missing row.
\<close>

record db =
  user_profiles :: "UserProfile list"
  user_keys :: "UserKey list"
  chat_keys :: "ChatKey list"
  chats :: "Chat list"
  messages :: "Message list"

text \<open>
  The foreign keys of the schema: \<open>user_keys.user_id\<close>, \<open>chat_keys.sender_id\<close>,
  \<open>chat_keys.recipient_id\<close> and \<open>chats.created_by\<close> are declared
  \<open>REFERENCES user_profiles(id)\<close>, and \<open>chat_keys.chat_id\<close> is declared
  \<open>REFERENCES chats(id)\<close>.  The database checks them for a row that is inserted and, for
  a row that is updated, for the referencing columns whose value changes; a statement that
  fails the check changes nothing and answers with an error.
\<close>

definition references_user_profiles :: "db \<Rightarrow> user_id \<Rightarrow> bool" where
  "references_user_profiles d userId = list_ex (\<lambda>p. profile_id p = userId) (user_profiles d)"

definition references_chats :: "db \<Rightarrow> chat_id \<Rightarrow> bool" where
  "references_chats d chatId = list_ex (\<lambda>c. id c = chatId) (chats d)"

text \<open>
  \<open>.single()\<close> of the database client: the one selected row, an error when the
  selection has no row or several.
\<close>

fun single :: "'a list \<Rightarrow> 'a option" where
  "single [r] = Some r"
| "single _ = None"

text \<open>JavaScript \<open>x || null\<close> on a string column.\<close>

definition or_null :: "blob \<Rightarrow> blob option" where
  "or_null b = (if truthy b then Some b else None)"

section \<open>KeysModel (keys.model.ts)\<close>

text \<open>
  The storage engine is taken to answer every statement (no connection failures), so the
  error branches of the model functions (\<open>if (error) return null\<close>) are the ones a foreign
  key, a unique key or \<open>.single()\<close> produces.
\<close>

text \<open>
  The rows after an \<open>.upsert(values)\<close> of the database client
  (\<open>INSERT ... ON CONFLICT DO UPDATE\<close>) that the database accepts: a row that conflicts on
  the unique key has the given columns overwritten, otherwise the new row is inserted.
\<close>

definition upsert :: "('a \<Rightarrow> bool) \<Rightarrow> ('a \<Rightarrow> 'a) \<Rightarrow> 'a \<Rightarrow> 'a list \<Rightarrow> 'a list" where
  "upsert conflict overwrite fresh rows =
     (if list_ex conflict rows
      then map (\<lambda>r. if conflict r then overwrite r else r) rows
      else rows @ [fresh])"

text \<open>
  Upsert on the primary key \<open>user_id\<close>.  An update leaves \<open>user_id\<close> as it is, so the
  foreign key is checked only when the row is inserted.
\<close>

definition upsertPublicKey :: "user_id \<Rightarrow> blob \<Rightarrow> timestamp \<Rightarrow> db \<Rightarrow> UserKey option \<times> db" where
  "upsertPublicKey userId publicKey now d =
     (let referenced =
            (if list_ex (\<lambda>r. user_id r = userId) (user_keys d) then True
             else references_user_profiles d userId)
      in if \<not> referenced then (None, d)
         else
           (let rows = upsert (\<lambda>r. user_id r = userId)
                         (\<lambda>r. r\<lparr>public_key := publicKey, updated_at := now\<rparr>)
                         \<lparr>user_id = userId, public_key = publicKey, encrypted_master_key = None,
                          encrypted_rsa_private_key = None, updated_at = now\<rparr>
                         (user_keys d)
            in (single (filter (\<lambda>r. user_id r = userId) rows), d\<lparr>user_keys := rows\<rparr>)))"

definition getPublicKey :: "db \<Rightarrow> user_id \<Rightarrow> blob option" where
  "getPublicKey d userId =
     (case single (filter (\<lambda>r. user_id r = userId) (user_keys d)) of
        None \<Rightarrow> None
      | Some r \<Rightarrow> or_null (public_key r))"

definition uploadUserKeys ::
  "user_id \<Rightarrow> blob \<Rightarrow> EncryptedMasterKey \<Rightarrow> EncryptedRSAPrivateKey \<Rightarrow> timestamp \<Rightarrow> db
     \<Rightarrow> UserKey option \<times> db" where
  "uploadUserKeys userId rsaPublicKey encryptedMasterKey encryptedRSAPrivateKey now d =
     (let row = \<lparr>user_id = userId, public_key = rsaPublicKey,
                 encrypted_master_key = Some encryptedMasterKey,
                 encrypted_rsa_private_key = Some encryptedRSAPrivateKey, updated_at = now\<rparr>;
          referenced =
            (if list_ex (\<lambda>r. user_id r = userId) (user_keys d) then True
             else references_user_profiles d userId)
      in if \<not> referenced then (None, d)
         else
           (let rows = upsert (\<lambda>r. user_id r = userId) (\<lambda>r. row) row (user_keys d)
            in (single (filter (\<lambda>r. user_id r = userId) rows), d\<lparr>user_keys := rows\<rparr>)))"

definition getUserKeys :: "db \<Rightarrow> user_id \<Rightarrow> UserKey option" where
  "getUserKeys d userId = single (filter (\<lambda>r. user_id r = userId) (user_keys d))"

definition updateEncryptedMasterKey ::
  "user_id \<Rightarrow> EncryptedMasterKey \<Rightarrow> timestamp \<Rightarrow> db \<Rightarrow> bool \<times> db" where
  "updateEncryptedMasterKey userId encryptedMasterKey now d =
     (True, d\<lparr>user_keys :=
                 map (\<lambda>r. if user_id r = userId
                           then r\<lparr>encrypted_master_key := Some encryptedMasterKey,
                                  updated_at := now\<rparr>
                           else r) (user_keys d)\<rparr>)"

text \<open>Two deletes, first the rows addressed to the user, then the rows the user sent.\<close>

definition deleteUserChatKeys :: "user_id \<Rightarrow> db \<Rightarrow> bool \<times> db" where
  "deleteUserChatKeys userId d =
     (let afterRecipient = filter (\<lambda>k. recipient_id k \<noteq> userId) (chat_keys d);
          afterSender = filter (\<lambda>k. sender_id k \<noteq> userId) afterRecipient
      in (True, d\<lparr>chat_keys := afterSender\<rparr>))"

text \<open>
  Upsert with \<open>onConflict: 'chat_id,recipient_id'\<close>.  An inserted row has its three foreign
  keys checked; an update leaves \<open>chat_id\<close> and \<open>recipient_id\<close> as they are and has
  \<open>sender_id\<close> checked when it changes.
\<close>

definition shareChatKey ::
  "chat_id \<Rightarrow> user_id \<Rightarrow> user_id \<Rightarrow> blob \<Rightarrow> db \<Rightarrow> ChatKey option \<times> db" where
  "shareChatKey chatId senderId recipientId encryptedChatKey d =
     (let row = \<lparr>chat_id = chatId, sender_id = senderId, recipient_id = recipientId,
                 encrypted_chat_key = encryptedChatKey\<rparr>;
          hit = (\<lambda>k. chat_id k = chatId \<and> recipient_id k = recipientId);
          referenced =
            (if list_ex hit (chat_keys d)
             then list_all (\<lambda>k. sender_id k = senderId) (filter hit (chat_keys d))
                  \<or> references_user_profiles d senderId
             else references_chats d chatId \<and> references_user_profiles d senderId
                  \<and> references_user_profiles d recipientId)
      in if \<not> referenced then (None, d)
         else
           (let rows = upsert hit (\<lambda>k. row) row (chat_keys d)
            in (single (filter hit rows), d\<lparr>chat_keys := rows\<rparr>)))"

definition getChatKey :: "db \<Rightarrow> chat_id \<Rightarrow> user_id \<Rightarrow> blob option" where
  "getChatKey d chatId userId =
     (case single (filter (\<lambda>k. chat_id k = chatId \<and> recipient_id k = userId) (chat_keys d)) of
        None \<Rightarrow> None
      | Some k \<Rightarrow> or_null (encrypted_chat_key k))"

definition getAllChatKeys :: "db \<Rightarrow> chat_id \<Rightarrow> ChatKey list" where
  "getAllChatKeys d chatId = filter (\<lambda>k. chat_id k = chatId) (chat_keys d)"

section \<open>ChatModel (chat.model.ts)\<close>

definition getChatById :: "db \<Rightarrow> chat_id \<Rightarrow> Chat option" where
  "getChatById d chatId = single (filter (\<lambda>c. id c = chatId) (chats d))"



definition isUserInChat :: "db \<Rightarrow> chat_id \<Rightarrow> user_id \<Rightarrow> bool" where
  "isUserInChat d chatId userId =
     (case single (filter (\<lambda>c. id c = chatId) (chats d)) of
        None \<Rightarrow> False
      | Some c \<Rightarrow> userId \<in> set (participants c))"

section \<open>UserModel (user.model.ts) and MessageModel (message.model.ts)\<close>

definition getProfile :: "db \<Rightarrow> user_id \<Rightarrow> UserProfile option" where
  "getProfile d userId = single (filter (\<lambda>p. profile_id p = userId) (user_profiles d))"

text \<open>
  \<open>upsertProfile\<close>, called by the routes with the id and email of the verified token, so
  that the row \<open>user_profiles.id\<close> references in the provider's \<open>auth.users\<close> is there.
  Column \<open>email\<close> is \<open>UNIQUE\<close>: the write is refused when another profile holds the email.
\<close>

definition upsertProfile :: "user_id \<Rightarrow> string \<Rightarrow> db \<Rightarrow> UserProfile option \<times> db" where
  "upsertProfile userId email d =
     (if list_ex (\<lambda>p. profile_email p = email \<and> profile_id p \<noteq> userId) (user_profiles d)
      then (None, d)
      else
        (let rows = upsert (\<lambda>p. profile_id p = userId) (\<lambda>p. p\<lparr>profile_email := email\<rparr>)
                      \<lparr>profile_id = userId, profile_email = email\<rparr> (user_profiles d)
         in (single (filter (\<lambda>p. profile_id p = userId) rows), d\<lparr>user_profiles := rows\<rparr>)))"

text \<open>
  \<open>getMessages\<close> without \<open>before\<close>: the \<open>limit\<close> latest rows of the chat (ordered by
  \<open>created_at\<close> descending, limited), reversed into ascending order.
\<close>

definition getMessages :: "db \<Rightarrow> chat_id \<Rightarrow> nat \<Rightarrow> Message list" where
  "getMessages d chatId limit =
     rev (take limit (rev (filter (\<lambda>m. message_chat_id m = chatId) (messages d))))"

section \<open>HTTP responses\<close>

text \<open>
  A response is a status code and a JSON body (\<open>res.json\<close> without \<open>res.status\<close>
  answers 200).  One constructor per body shape the routes send.
\<close>

datatype body =
    Error string
  | Message string
  | PublicKeyStored bool string bool
  | PublicKeyBody blob
  | UserKeysBody "EncryptedMasterKey option" "EncryptedRSAPrivateKey option" blob
  | Success bool string
  | EncryptedChatKeyBody blob
  | ChatKeysBody "ChatKey list"
  | ChatBody Chat
  | ProfileBody "UserProfile option"
  | MessagesBody "Message list"

type_synonym response = "nat \<times> body"

text \<open>The \<open>key_rotation\<close> field of a body, when the body has one.\<close>

fun key_rotation :: "body \<Rightarrow> bool option" where
  "key_rotation (PublicKeyStored success message rotated) = Some rotated"
| "key_rotation _ = None"

section \<open>Routes of keys.routes.ts (mounted at /api/keys)\<close>

text \<open>
  \<open>uploadKeysSchema\<close>: every field is \<open>Joi.string().required()\<close>, which refuses the empty
  string; the first failing field gives the message.
\<close>

definition uploadKeysSchema_validate ::
  "blob \<Rightarrow> EncryptedMasterKey \<Rightarrow> EncryptedRSAPrivateKey \<Rightarrow> string option" where
  "uploadKeysSchema_validate rsa_public_key emk erk =
     (if \<not> truthy rsa_public_key then Some ''\"rsa_public_key\" is not allowed to be empty''
      else if \<not> truthy (wrapped emk)
        then Some ''\"encrypted_master_key.wrapped\" is not allowed to be empty''
      else if \<not> truthy (iv emk)
        then Some ''\"encrypted_master_key.iv\" is not allowed to be empty''
      else if \<not> truthy (salt emk)
        then Some ''\"encrypted_master_key.salt\" is not allowed to be empty''
      else if \<not> truthy (encrypted erk)
        then Some ''\"encrypted_rsa_private_key.encrypted\" is not allowed to be empty''
      else if \<not> truthy (rsa_iv erk)
        then Some ''\"encrypted_rsa_private_key.iv\" is not allowed to be empty''
      else None)"

text \<open>\<open>router.post('/')\<close>; \<open>userId\<close> is \<open>req.user.id\<close>, set by \<open>verifySupabaseToken\<close>.\<close>

definition post_keys ::
  "user_id \<Rightarrow> blob \<Rightarrow> EncryptedMasterKey \<Rightarrow> EncryptedRSAPrivateKey \<Rightarrow> timestamp \<Rightarrow> db
     \<Rightarrow> response \<times> db" where
  "post_keys userId rsa_public_key emk erk now d =
     (case uploadKeysSchema_validate rsa_public_key emk erk of
        Some msg \<Rightarrow> ((400, Error msg), d)
      | None \<Rightarrow>
          (let (row, d') = uploadUserKeys userId rsa_public_key emk erk now d
           in ((200, Message ''Keys uploaded successfully''), d')))"

text \<open>\<open>router.get('/:userId')\<close>; \<open>caller\<close> is \<open>req.user.id\<close>.\<close>

definition get_keys :: "db \<Rightarrow> user_id \<Rightarrow> user_id \<Rightarrow> response" where
  "get_keys d caller userId =
     (if userId \<noteq> caller then (403, Error ''Forbidden'')
      else case getUserKeys d userId of
             None \<Rightarrow> (404, Error ''Keys not found'')
           | Some keys \<Rightarrow>
               (200, UserKeysBody (encrypted_master_key keys) (encrypted_rsa_private_key keys)
                       (public_key keys)))"

section \<open>Routes of the users router (mounted at /api/users)\<close>

text \<open>\<open>router.post('/public-key')\<close>, run after \<open>validate(publicKeySchema)\<close>.\<close>

definition post_public_key :: "user_id \<Rightarrow> blob \<Rightarrow> timestamp \<Rightarrow> db \<Rightarrow> response \<times> db" where
  "post_public_key userId pk now d =
     (let existingKey = getPublicKey d userId;
          isKeyRotation = (existingKey \<noteq> None);
          (result, d1) = upsertPublicKey userId pk now d
      in case result of
           None \<Rightarrow> ((500, Error ''Failed to store public key''), d1)
         | Some row \<Rightarrow>
             (let d2 = (if isKeyRotation then snd (deleteUserChatKeys userId d1) else d1)
              in ((200, PublicKeyStored True ''Public key stored successfully'' isKeyRotation),
                  d2)))"

text \<open>\<open>router.get('/:userId/public-key')\<close>; the handler never looks at the caller.\<close>

definition get_user_public_key :: "db \<Rightarrow> user_id \<Rightarrow> user_id \<Rightarrow> response" where
  "get_user_public_key d caller userId =
     (case getPublicKey d userId of
        None \<Rightarrow> (404, Error ''Public key not found'')
      | Some publicKey \<Rightarrow> (200, PublicKeyBody publicKey))"

section \<open>Routes of chat.routes.ts (mounted at /api/chats)\<close>

text \<open>\<open>router.post('/:chatId/share-key')\<close>, run after \<open>validate(shareChatKeySchema)\<close>.\<close>

definition share_key :: "user_id \<Rightarrow> chat_id \<Rightarrow> user_id \<Rightarrow> blob \<Rightarrow> db \<Rightarrow> response \<times> db" where
  "share_key userId chatId recipient encrypted_key d =
     (case getChatById d chatId of
        None \<Rightarrow> ((404, Error ''Chat not found''), d)
      | Some chat \<Rightarrow>
          if userId \<notin> set (participants chat) then ((403, Error ''Not authorized''), d)
          else if recipient \<notin> set (participants chat)
            then ((400, Error ''Recipient is not in this chat''), d)
          else (let (result, d') = shareChatKey chatId userId recipient encrypted_key d
                in case result of
                     None \<Rightarrow> ((500, Error ''Failed to share chat key''), d')
                   | Some row \<Rightarrow> ((200, Success True ''Chat key shared successfully''), d')))"

text \<open>\<open>router.get('/:chatId/my-key')\<close>.\<close>

definition get_my_key :: "db \<Rightarrow> user_id \<Rightarrow> chat_id \<Rightarrow> response" where
  "get_my_key d userId chatId =
     (case getChatById d chatId of
        None \<Rightarrow> (404, Error ''Chat not found'')
      | Some chat \<Rightarrow>
          if userId \<notin> set (participants chat) then (403, Error ''Not authorized'')
          else (case getChatKey d chatId userId of
                  None \<Rightarrow> (404, Error ''Chat key not found'')
                | Some encryptedKey \<Rightarrow> (200, EncryptedChatKeyBody encryptedKey)))"

text \<open>\<open>router.get('/:chatId/keys')\<close>.\<close>

definition get_chat_keys :: "db \<Rightarrow> user_id \<Rightarrow> chat_id \<Rightarrow> response" where
  "get_chat_keys d userId chatId =
     (case getChatById d chatId of
        None \<Rightarrow> (404, Error ''Chat not found'')
      | Some chat \<Rightarrow>
          if userId \<notin> set (participants chat) then (403, Error ''Not authorized'')
          else (200, ChatKeysBody (getAllChatKeys d chatId)))"


text \<open>
  \<open>router.get('/:chatId/messages')\<close>; \<open>query_limit\<close> is \<open>parseInt(req.query.limit)\<close> of a
  query that carries a number (the page always sends \<open>?limit=50\<close>), and
  \<open>parseInt(...) || 50\<close> reads 0 as 50.
\<close>

definition get_messages :: "db \<Rightarrow> user_id \<Rightarrow> chat_id \<Rightarrow> nat \<Rightarrow> response" where
  "get_messages d userId chatId query_limit =
     (let limit = (if query_limit = 0 then 50 else query_limit)
      in case getChatById d chatId of
           None \<Rightarrow> (404, Error ''Chat not found'')
         | Some chat \<Rightarrow>
             if userId \<notin> set (participants chat) then (403, Error ''Not authorized'')
             else (200, MessagesBody (getMessages d chatId limit)))"

section \<open>Route of auth.routes.ts (mounted at /api/auth)\<close>

text \<open>\<open>router.get('/me')\<close>: the profile, created when it is not there yet.\<close>

definition get_me :: "user_id \<Rightarrow> string \<Rightarrow> db \<Rightarrow> response \<times> db" where
  "get_me userId email d =
     (case getProfile d userId of
        Some p \<Rightarrow> ((200, ProfileBody (Some p)), d)
      | None \<Rightarrow>
          (let (profile, d') = upsertProfile userId email d
           in ((200, ProfileBody profile), d')))"

section \<open>Socket handler 'chat:key:share' (socket/index.ts)\<close>

datatype socket_event =
    ErrorEvent string
  | ChatKeyReceived chat_id user_id blob

datatype target = CallerSocket | Room string

text \<open>
  The handler does not read what \<open>shareChatKey\<close> returns (\<open>null\<close> when the write is
  refused, not an exception): the event is emitted either way.
\<close>

definition socket_chat_key_share ::
  "user_id \<Rightarrow> chat_id \<Rightarrow> user_id \<Rightarrow> blob \<Rightarrow> db \<Rightarrow> (target \<times> socket_event) list \<times> db" where
  "socket_chat_key_share userId chatId recipientId encryptedChatKey d =
     (if \<not> isUserInChat d chatId userId
      then ([(CallerSocket, ErrorEvent ''Not authorized'')], d)
      else (let (row, d') = shareChatKey chatId userId recipientId encryptedChatKey d
            in ([(Room (''user:'' @ recipientId),
                  ChatKeyReceived chatId userId encryptedChatKey)], d')))"

section \<open>The browser: stores and state of the page\<close>

text \<open>
  IndexedDB database \<open>EncryptionDB\<close> (version 1): not created yet, created without the
  object store \<open>keys\<close> (opened first by code that has no \<open>onupgradeneeded\<close> handler), or
  holding the object store.
\<close>

datatype idb = NoDatabase | NoStore | Keys "string \<rightharpoonup> blob"

record user =
  uid :: user_id
  email :: string

text \<open>What \<open>loadMessageHistory\<close> appends to the \<open>messages\<close> pane.\<close>

datatype rendered = SentMessage blob | ReceivedMessage blob | Undecryptable

text \<open>
  The \<open>CryptoHelper\<close> instance (\<open>privateKey\<close>, \<open>publicKey\<close>, \<open>chatKeys\<close>), the browser's
  stores, the session the Supabase client holds, and the globals and panes of app.js.
  Key objects are identified by the number of their key material.  The debug log panes
  are not modelled.
\<close>

record device =
  privateKey :: "nat option"
  publicKey :: "nat option"
  chatKeys :: "chat_id \<rightharpoonup> nat"
  localStorage :: "string \<rightharpoonup> blob"
  indexedDB :: idb
  session :: "user option"
  currentUser :: "user option"
  currentChatId :: "chat_id option"
  currentRecipientId :: "user_id option"
  socket :: bool
  chatSection :: bool
  alerts :: "(string \<times> string) list"
  messagesDiv :: "rendered list"
  recoveryModal :: "blob option"

text \<open>A thrown JavaScript exception, with the message \<open>error.message\<close> shows.\<close>

datatype js_error = Err string | TypeError string | OperationError

fun message :: "js_error \<Rightarrow> string" where
  "message (Err m) = m"
| "message (TypeError m) = m"
| "message OperationError = ''The operation failed for an operation-specific reason''"

definition showAlert :: "string \<Rightarrow> string \<Rightarrow> device \<Rightarrow> device" where
  "showAlert kind msg dv = dv\<lparr>alerts := alerts dv @ [(kind, msg)]\<rparr>"

section \<open>CryptoHelper (crypto-helper.js)\<close>

text \<open>
  Random draws (\<open>generateKey\<close>, \<open>getRandomValues\<close>) are arguments of the functions that
  make them.
\<close>

definition generateUserKeys :: "nat \<Rightarrow> device \<Rightarrow> device" where
  "generateUserKeys keyPair dv =
     dv\<lparr>privateKey := Some keyPair, publicKey := Some keyPair,
        localStorage := (localStorage dv)(''privateKey'' \<mapsto> PrivateJwk keyPair)\<rparr>"

definition exportPublicKey :: "device \<Rightarrow> js_error + blob" where
  "exportPublicKey dv =
     (case publicKey dv of
        None \<Rightarrow> Inl (TypeError ''exportKey: parameter 2 is not of type CryptoKey'')
      | Some n \<Rightarrow> Inr (PublicJwk n))"

definition importPublicKey :: "blob \<Rightarrow> js_error + nat" where
  "importPublicKey base64Key =
     (case base64Key of
        PublicJwk n \<Rightarrow> Inr n
      | _ \<Rightarrow> Inl (TypeError ''importKey: not a public JWK''))"


text \<open>Memory first, then \<open>localStorage\<close>; a stored key is put into the memory map.\<close>

definition loadChatKey :: "chat_id \<Rightarrow> device \<Rightarrow> js_error + (nat option \<times> device)" where
  "loadChatKey chatId dv =
     (case chatKeys dv chatId of
        Some k \<Rightarrow> Inr (Some k, dv)
      | None \<Rightarrow>
          (case localStorage dv (''chatKey_'' @ chatId) of
             None \<Rightarrow> Inr (None, dv)
           | Some stored \<Rightarrow>
               if \<not> truthy stored then Inr (None, dv)
               else (case stored of
                       RawKey k \<Rightarrow> Inr (Some k, dv\<lparr>chatKeys := (chatKeys dv)(chatId \<mapsto> k)\<rparr>)
                     | _ \<Rightarrow> Inl (TypeError ''importKey: not a raw AES key''))))"


text \<open>
  RSA-OAEP decryption succeeds exactly with the private key of the pair the key was
  wrapped for; every failure is rethrown with the one message below.
\<close>

definition decryptChatKey :: "blob \<Rightarrow> chat_id \<Rightarrow> device \<Rightarrow> js_error + (nat \<times> device)" where
  "decryptChatKey encryptedKeyBase64 chatId dv =
     (let failed = Inl (Err (''Failed to decrypt chat key. This usually happens when your ''
                        @ ''encryption keys were regenerated. Please ask the sender to ''
                        @ ''create a new chat.''))
      in case (privateKey dv, encryptedKeyBase64) of
           (Some n, RsaOaep m (RawKey k)) \<Rightarrow>
             if m = n
             then Inr (k, dv\<lparr>chatKeys := (chatKeys dv)(chatId \<mapsto> k),
                              localStorage := (localStorage dv)(''chatKey_'' @ chatId \<mapsto> RawKey k)\<rparr>)
             else failed
         | _ \<Rightarrow> failed)"

text \<open>AES-GCM: decryption succeeds exactly with the key and nonce of the encryption.\<close>

definition aes_gcm_decrypt :: "nat \<Rightarrow> blob \<Rightarrow> blob \<Rightarrow> js_error + blob" where
  "aes_gcm_decrypt key nonce ciphertext =
     (case ciphertext of
        AesGcm k n plaintext \<Rightarrow>
          if k = key \<and> n = nonce then Inr plaintext else Inl OperationError
      | _ \<Rightarrow> Inl OperationError)"

definition encryptMessage ::
  "string \<Rightarrow> chat_id \<Rightarrow> nat \<Rightarrow> device \<Rightarrow> js_error + ((blob \<times> blob) \<times> device)" where
  "encryptMessage msg chatId nonce dv =
     (case loadChatKey chatId dv of
        Inl e \<Rightarrow> Inl e
      | Inr (None, dv') \<Rightarrow> Inl (Err ''No chat key found for this chat'')
      | Inr (Some chatKey, dv') \<Rightarrow>
          Inr ((AesGcm chatKey (Nonce nonce) (Text msg), Nonce nonce), dv'))"

text \<open>
  \<open>decryptMessage\<close> returns the device as well: \<open>loadChatKey\<close> may have put the stored
  key into the memory map before the decryption failed.
\<close>

definition decryptMessage :: "blob \<Rightarrow> blob \<Rightarrow> chat_id \<Rightarrow> device \<Rightarrow> (js_error + blob) \<times> device" where
  "decryptMessage encryptedBase64 ivBase64 chatId dv =
     (case loadChatKey chatId dv of
        Inl e \<Rightarrow> (Inl e, dv)
      | Inr (None, dv') \<Rightarrow> (Inl (Err ''No chat key found for this chat''), dv')
      | Inr (Some chatKey, dv') \<Rightarrow> (aes_gcm_decrypt chatKey ivBase64 encryptedBase64, dv'))"

text \<open>
  \<open>clearKeys\<close>: the three fields, and every \<open>localStorage\<close> entry whose name starts with
  \<open>chatKey_\<close> or is \<open>privateKey\<close>.
\<close>

definition startsWith :: "string \<Rightarrow> string \<Rightarrow> bool" where
  "startsWith s p = (take (length p) s = p)"

definition clearKeys :: "device \<Rightarrow> device" where
  "clearKeys dv =
     dv\<lparr>privateKey := None, publicKey := None, chatKeys := Map.empty,
        localStorage :=
          (\<lambda>key. if startsWith key ''chatKey_'' \<or> key = ''privateKey'' then None
                  else localStorage dv key)\<rparr>"

subsection \<open>Master key methods\<close>

text \<open>
  PBKDF2 with 100000 iterations of SHA-256, then AES-GCM \<open>wrapKey\<close>: the wrapped key
  records the password and salt of the wrapping key and the nonce.  The salt is the
  SHA-256 of the account email.
\<close>

definition encryptMasterKeyWithPassword :: "nat \<Rightarrow> string \<Rightarrow> string \<Rightarrow> nat \<Rightarrow> EncryptedMasterKey" where
  "encryptMasterKeyWithPassword masterKey password mail nonce =
     \<lparr>wrapped = WrappedKey (Text password) (Sha256 (Text mail)) (Nonce nonce) masterKey,
      iv = Nonce nonce,
      salt = Sha256 (Text mail)\<rparr>"

definition decryptMasterKeyWithPassword :: "EncryptedMasterKey \<Rightarrow> string \<Rightarrow> js_error + nat" where
  "decryptMasterKeyWithPassword encryptedData password =
     (case wrapped encryptedData of
        WrappedKey pw s n masterKey \<Rightarrow>
          if pw = Text password \<and> s = salt encryptedData \<and> n = iv encryptedData
          then Inr masterKey else Inl OperationError
      | _ \<Rightarrow> Inl OperationError)"

text \<open>\<open>btoa(SHA-256(password + ':auth:' + email))\<close>.\<close>

definition deriveAuthPassword :: "string \<Rightarrow> string \<Rightarrow> blob" where
  "deriveAuthPassword password mail = Sha256 (Text (password @ '':auth:'' @ mail))"

text \<open>
  \<open>storeMasterKeyInIndexedDB\<close>: a new database gets the store and the key in
  \<open>onupgradeneeded\<close>; an existing one is written only when it has the store.
\<close>

definition storeMasterKeyInIndexedDB :: "nat \<Rightarrow> device \<Rightarrow> device" where
  "storeMasterKeyInIndexedDB masterKey dv =
     (case indexedDB dv of
        NoDatabase \<Rightarrow> dv\<lparr>indexedDB := Keys [''masterKey'' \<mapsto> RawKey masterKey]\<rparr>
      | NoStore \<Rightarrow> dv
      | Keys store \<Rightarrow> dv\<lparr>indexedDB := Keys (store(''masterKey'' \<mapsto> RawKey masterKey))\<rparr>)"

text \<open>
  \<open>loadMasterKeyFromIndexedDB\<close> creates the store in a new database; a missing or falsy
  entry and a failed import all resolve to \<open>null\<close>.
\<close>

definition loadMasterKeyFromIndexedDB :: "device \<Rightarrow> nat option \<times> device" where
  "loadMasterKeyFromIndexedDB dv =
     (case indexedDB dv of
        NoDatabase \<Rightarrow> (None, dv\<lparr>indexedDB := Keys Map.empty\<rparr>)
      | NoStore \<Rightarrow> (None, dv)
      | Keys store \<Rightarrow>
          (case store ''masterKey'' of
             None \<Rightarrow> (None, dv)
           | Some stored \<Rightarrow>
               if \<not> truthy stored then (None, dv)
               else (case stored of
                       RawKey masterKey \<Rightarrow> (Some masterKey, dv)
                     | _ \<Rightarrow> (None, dv))))"

definition clearMasterKeyFromIndexedDB :: "device \<Rightarrow> device" where
  "clearMasterKeyFromIndexedDB dv =
     (case indexedDB dv of
        NoDatabase \<Rightarrow> dv\<lparr>indexedDB := NoStore\<rparr>
      | NoStore \<Rightarrow> dv
      | Keys store \<Rightarrow> dv\<lparr>indexedDB := Keys (store(''masterKey'' := None))\<rparr>)"

definition encryptRSAPrivateKey :: "nat \<Rightarrow> nat \<Rightarrow> nat \<Rightarrow> EncryptedRSAPrivateKey" where
  "encryptRSAPrivateKey rsaPrivateKey masterKey nonce =
     \<lparr>encrypted = AesGcm masterKey (Nonce nonce) (Pkcs8 rsaPrivateKey), rsa_iv = Nonce nonce\<rparr>"

text \<open>
  The argument is the field of the downloaded keys, \<open>null\<close> when the column is (reading
  \<open>.iv\<close> of \<open>null\<close> throws).  The decrypted bytes must import as a PKCS#8 private key.
\<close>

definition decryptRSAPrivateKey :: "EncryptedRSAPrivateKey option \<Rightarrow> nat \<Rightarrow> js_error + nat" where
  "decryptRSAPrivateKey encryptedData masterKey =
     (case encryptedData of
        None \<Rightarrow> Inl (TypeError ''Cannot read properties of null (reading 'iv')'')
      | Some ed \<Rightarrow>
          (case aes_gcm_decrypt masterKey (rsa_iv ed) (encrypted ed) of
             Inl e \<Rightarrow> Inl e
           | Inr (Pkcs8 n) \<Rightarrow> Inr n
           | Inr _ \<Rightarrow> Inl (TypeError ''importKey: not a PKCS#8 private key'')))"

definition generateRecoveryKey :: "nat \<Rightarrow> nat \<Rightarrow> blob" where
  "generateRecoveryKey masterKey saltDraw = RecoveryKey masterKey saltDraw"

text \<open>
  \<open>clearMasterKey\<close> starts with \<open>await this.openDB()\<close>.  Class \<open>CryptoHelper\<close> has no member
  \<open>openDB\<close>: the members it defines are listed below, so the call throws a
  \<open>TypeError\<close>, which the method's own \<open>catch\<close> logs; the delete that follows is never
  reached.
\<close>

definition CryptoHelper_members :: "string list" where
  "CryptoHelper_members =
     [''generateUserKeys'', ''loadPrivateKey'', ''exportPublicKey'', ''importPublicKey'',
      ''generateChatKey'', ''loadChatKey'', ''encryptChatKey'', ''decryptChatKey'',
      ''encryptMessage'', ''decryptMessage'', ''clearKeys'', ''generateMasterKey'',
      ''encryptMasterKeyWithPassword'', ''decryptMasterKeyWithPassword'', ''deriveAuthPassword'',
      ''storeMasterKeyInIndexedDB'', ''loadMasterKeyFromIndexedDB'',
      ''clearMasterKeyFromIndexedDB'', ''encryptRSAPrivateKey'', ''decryptRSAPrivateKey'',
      ''generateRecoveryKey'', ''restoreMasterKeyFromRecovery'', ''clearMasterKey'',
      ''privateKey'', ''publicKey'', ''chatKeys'']"

definition call_openDB :: "device \<Rightarrow> js_error + idb" where
  "call_openDB dv =
     (if ''openDB'' \<in> set CryptoHelper_members then Inr (indexedDB dv)
      else Inl (TypeError ''this.openDB is not a function''))"

definition clearMasterKey :: "device \<Rightarrow> device" where
  "clearMasterKey dv =
     (case call_openDB dv of
        Inl e \<Rightarrow> dv
      | Inr (Keys store) \<Rightarrow> dv\<lparr>indexedDB := Keys (store(''masterKey'' := None))\<rparr>
      | Inr _ \<Rightarrow> dv)"

section \<open>The authentication provider\<close>

text \<open>
  Supabase Auth, an external collaborator, at its interface: it keeps one credential per
  registered email, and \<open>received\<close> records the \<open>password\<close> field of every \<open>signUp\<close> and
  \<open>signInWithPassword\<close> request it is sent.  \<open>newId\<close> is the user id it draws.
\<close>

record account =
  account_email :: string
  credential :: blob
  account_id :: user_id

record provider =
  accounts :: "account list"
  received :: "(string \<times> blob) list"

definition signUp :: "string \<Rightarrow> blob \<Rightarrow> user_id \<Rightarrow> provider \<Rightarrow> (js_error + user) \<times> provider" where
  "signUp mail password newId p =
     (let p' = p\<lparr>received := received p @ [(mail, password)]\<rparr>
      in if list_ex (\<lambda>a. account_email a = mail) (accounts p)
         then (Inl (Err ''User already registered''), p')
         else (Inr \<lparr>uid = newId, email = mail\<rparr>,
               p'\<lparr>accounts := accounts p @
                      [\<lparr>account_email = mail, credential = password, account_id = newId\<rparr>]\<rparr>))"

definition signInWithPassword :: "string \<Rightarrow> blob \<Rightarrow> provider \<Rightarrow> (js_error + user) \<times> provider" where
  "signInWithPassword mail password p =
     (let p' = p\<lparr>received := received p @ [(mail, password)]\<rparr>
      in case find (\<lambda>a. account_email a = mail \<and> credential a = password) (accounts p) of
           None \<Rightarrow> (Inl (Err ''Invalid login credentials''), p')
         | Some a \<Rightarrow> (Inr \<lparr>uid = account_id a, email = mail\<rparr>, p'))"

section \<open>app.js\<close>

text \<open>
  The page runs against the backend's database and the authentication provider.  A
  request the page sends with the token of its session reaches the route handler with
  \<open>req.user\<close> the user of that session.
\<close>

record world =
  server :: db
  supabase :: provider
  dev :: device

definition ok :: "response \<Rightarrow> bool" where
  "ok r = (200 \<le> fst r \<and> fst r \<le> 299)"

text \<open>
  \<open>error.error || fallback\<close> on the body of an error response, and the status line of
  the statuses the routes send.
\<close>

definition errorText :: "response \<Rightarrow> string \<Rightarrow> string" where
  "errorText r fallback =
     (case snd r of
        Error m \<Rightarrow> if m \<noteq> [] then m else fallback
      | _ \<Rightarrow> fallback)"

definition statusText :: "nat \<Rightarrow> string" where
  "statusText code =
     (if code = 400 then ''Bad Request''
      else if code = 401 then ''Unauthorized''
      else if code = 403 then ''Forbidden''
      else if code = 404 then ''Not Found''
      else if code = 500 then ''Internal Server Error''
      else [])"

definition signOut :: "device \<Rightarrow> device" where
  "signOut dv = dv\<lparr>session := None\<rparr>"

text \<open>
  \<open>initializeChat\<close>: connects the socket and shows the chat pane.  What the server does
  on connection (rooms, presence) does not touch the key tables and is left out.
\<close>

definition initializeChat :: "device \<Rightarrow> device" where
  "initializeChat dv =
     (case session dv of
        None \<Rightarrow> showAlert ''error'' ''No active session'' dv
      | Some s \<Rightarrow>
          (let dv1 = dv\<lparr>socket := True, chatSection := True\<rparr>
           in case currentUser dv1 of
                None \<Rightarrow> showAlert ''error'' ''Failed to initialize chat'' dv1
              | Some u \<Rightarrow> dv1))"

subsection \<open>handleExistingSession\<close>

text \<open>The \<open>catch (decryptError)\<close> block: alert, sign out, \<open>clearMasterKey\<close>.\<close>

definition keyMismatch :: "device \<Rightarrow> device" where
  "keyMismatch dv =
     clearMasterKey
       (signOut
          (showAlert ''error''
             (''Encryption key mismatch. This account may be corrupted. ''
              @ ''Please delete your account and sign up again.'') dv))"

definition handleExistingSession :: "user \<Rightarrow> world \<Rightarrow> world" where
  "handleExistingSession sessionUser w =
     (let dv1 = (dev w)\<lparr>currentUser := Some sessionUser\<rparr>;
          (masterKey, dv2) = loadMasterKeyFromIndexedDB dv1
      in case masterKey of
           None \<Rightarrow>
             w\<lparr>dev := showAlert ''info''
                        ''Please enter your password to decrypt your data on this device.''
                        (dv2\<lparr>chatSection := False\<rparr>)\<rparr>
         | Some mk \<Rightarrow>
             (case session dv2 of
                None \<Rightarrow>
                  w\<lparr>dev := signOut (showAlert ''error'' ''Session expired. Please login again.'' dv2)\<rparr>
              | Some freshSession \<Rightarrow>
                  (let response = get_keys (server w) (uid freshSession) (uid freshSession)
                   in if \<not> ok response
                      then (if fst response = 404
                            then w\<lparr>dev := signOut (showAlert ''error''
                                     ''Account setup incomplete. Please sign up again.'' dv2)\<rparr>
                            else w\<lparr>dev := signOut (showAlert ''error''
                                     ''Failed to restore session. Please login again.'' dv2)\<rparr>)
                      else
                        (case snd response of
                           UserKeysBody emk erk pk \<Rightarrow>
                             (case decryptRSAPrivateKey erk mk of
                                Inl e \<Rightarrow> w\<lparr>dev := keyMismatch dv2\<rparr>
                              | Inr n \<Rightarrow>
                                  (case importPublicKey pk of
                                     Inl e \<Rightarrow> w\<lparr>dev := keyMismatch (dv2\<lparr>privateKey := Some n\<rparr>)\<rparr>
                                   | Inr m \<Rightarrow>
                                       w\<lparr>dev := initializeChat
                                           (showAlert ''info'' ''Session restored! Loading your chats...''
                                              (dv2\<lparr>privateKey := Some n, publicKey := Some m\<rparr>))\<rparr>))
                         | _ \<Rightarrow> w\<lparr>dev := keyMismatch dv2\<rparr>))))"

subsection \<open>handleSignup and handleLogin\<close>

text \<open>The random draws of one signup, and the server's clock at the upload.\<close>

record draws =
  masterKeyDraw :: nat
  wrapNonce :: nat
  userIdDraw :: user_id
  keyPairDraw :: nat
  privateKeyNonce :: nat
  recoverySalt :: nat
  uploadTime :: timestamp

text \<open>The outer \<open>catch\<close> of both handlers: \<open>showAlert('error', error.message)\<close>.\<close>

definition caught :: "js_error \<Rightarrow> world \<Rightarrow> world" where
  "caught e w = w\<lparr>dev := showAlert ''error'' (message e) (dev w)\<rparr>"

definition handleSignup :: "string \<Rightarrow> string \<Rightarrow> draws \<Rightarrow> world \<Rightarrow> world" where
  "handleSignup mail password r w =
     (if mail = [] \<or> password = []
      then w\<lparr>dev := showAlert ''error'' ''Please fill in all fields'' (dev w)\<rparr>
      else if length password < 6
      then w\<lparr>dev := showAlert ''error'' ''Password must be at least 6 characters'' (dev w)\<rparr>
      else
        let masterKey = masterKeyDraw r;
            encryptedMasterKey = encryptMasterKeyWithPassword masterKey password mail (wrapNonce r);
            authPassword = deriveAuthPassword password mail;
            (result, p') = signUp mail authPassword (userIdDraw r) (supabase w);
            w1 = w\<lparr>supabase := p'\<rparr>
        in case result of
             Inl e \<Rightarrow> caught e w1
           | Inr u \<Rightarrow>
               (let dv1 = (dev w1)\<lparr>currentUser := Some u, session := Some u\<rparr>;
                    (profileResponse, d1) = get_me (uid u) (email u) (server w1);
                    w2 = w1\<lparr>server := d1, dev := dv1\<rparr>
                in if \<not> ok profileResponse
                   then caught (Err (''Failed to create user profile: '' @ errorText profileResponse (statusText (fst profileResponse)))) w2
                   else
                     let dv2 = generateUserKeys (keyPairDraw r) dv1;
                         encryptedRSAPrivateKey =
                           encryptRSAPrivateKey (keyPairDraw r) masterKey (privateKeyNonce r);
                         dv3 = storeMasterKeyInIndexedDB masterKey dv2;
                         w3 = w2\<lparr>dev := dv3\<rparr>
                     in case exportPublicKey dv3 of
                          Inl e \<Rightarrow> caught e w3
                        | Inr publicKeyBase64 \<Rightarrow>
                            (let (response, d2) =
                                   post_keys (uid u) publicKeyBase64 encryptedMasterKey
                                     encryptedRSAPrivateKey (uploadTime r) d1;
                                 w4 = w3\<lparr>server := d2\<rparr>
                             in if \<not> ok response
                                then caught (Err (''Failed to upload keys: '' @ errorText response (statusText (fst response)))) w4
                                else
                                  w4\<lparr>dev := initializeChat
                                      (showAlert ''success''
                                         (''Account created! IMPORTANT: Save your recovery key ''
                                          @ ''before continuing.'')
                                         (dv3\<lparr>recoveryModal :=
                                                Some (generateRecoveryKey masterKey
                                                        (recoverySalt r))\<rparr>))\<rparr>)))"

text \<open>
  The two branches of \<open>handleLogin\<close> after the provider has accepted the login: without a
  master key on the device (download, unwrap with the password), and with one.
\<close>

definition decryptDownloadedMasterKey ::
  "EncryptedMasterKey option \<Rightarrow> string \<Rightarrow> js_error + nat" where
  "decryptDownloadedMasterKey encryptedData password =
     (case encryptedData of
        None \<Rightarrow> Inl (TypeError ''Cannot read properties of null (reading 'salt')'')
      | Some ed \<Rightarrow> decryptMasterKeyWithPassword ed password)"

definition loginWithoutMasterKey :: "user \<Rightarrow> string \<Rightarrow> world \<Rightarrow> (js_error \<times> world) + world" where
  "loginWithoutMasterKey u password w =
     (let response = get_keys (server w) (uid u) (uid u)
      in if \<not> ok response then Inl (Err ''Failed to fetch encrypted keys from server'', w)
         else
           (case snd response of
              UserKeysBody emk erk pk \<Rightarrow>
                (case decryptDownloadedMasterKey emk password of
                   Inl e \<Rightarrow> Inl (e, w)
                 | Inr masterKey \<Rightarrow>
                     (let dv1 = storeMasterKeyInIndexedDB masterKey (dev w);
                          wrong = Err (''Wrong password or corrupted account. ''
                                       @ ''Please verify your password or sign up again.'')
                      in case decryptRSAPrivateKey erk masterKey of
                           Inl e \<Rightarrow> Inl (wrong, w\<lparr>dev := dv1\<rparr>)
                         | Inr n \<Rightarrow>
                             (case importPublicKey pk of
                                Inl e \<Rightarrow> Inl (wrong, w\<lparr>dev := dv1\<lparr>privateKey := Some n\<rparr>\<rparr>)
                              | Inr m \<Rightarrow>
                                  Inr (w\<lparr>dev := dv1\<lparr>privateKey := Some n,
                                                    publicKey := Some m\<rparr>\<rparr>))))
            | _ \<Rightarrow> Inl (TypeError ''Cannot read properties of undefined'', w)))"

definition recoverWithPassword ::
  "EncryptedMasterKey option \<Rightarrow> EncryptedRSAPrivateKey option \<Rightarrow> blob \<Rightarrow> string \<Rightarrow> world
     \<Rightarrow> (js_error \<times> world) + world" where
  "recoverWithPassword emk erk pk password w =
     (let w1 = w\<lparr>dev := clearMasterKeyFromIndexedDB (dev w)\<rparr>
      in case decryptDownloadedMasterKey emk password of
           Inl e \<Rightarrow> Inl (e, w1)
         | Inr masterKey \<Rightarrow>
             (let dv2 = storeMasterKeyInIndexedDB masterKey (dev w1)
              in case decryptRSAPrivateKey erk masterKey of
                   Inl e \<Rightarrow> Inl (e, w1\<lparr>dev := dv2\<rparr>)
                 | Inr n \<Rightarrow>
                     (case importPublicKey pk of
                        Inl e \<Rightarrow> Inl (e, w1\<lparr>dev := dv2\<lparr>privateKey := Some n\<rparr>\<rparr>)
                      | Inr m \<Rightarrow>
                          Inr (w1\<lparr>dev := dv2\<lparr>privateKey := Some n, publicKey := Some m\<rparr>\<rparr>))))"

definition loginWithMasterKey ::
  "user \<Rightarrow> string \<Rightarrow> nat \<Rightarrow> world \<Rightarrow> (js_error \<times> world) + world" where
  "loginWithMasterKey u password masterKey w =
     (let response = get_keys (server w) (uid u) (uid u)
      in if \<not> ok response then Inl (Err ''Failed to fetch encrypted RSA keys from server'', w)
         else
           (case snd response of
              UserKeysBody emk erk pk \<Rightarrow>
                (case decryptRSAPrivateKey erk masterKey of
                   Inl e \<Rightarrow> recoverWithPassword emk erk pk password w
                 | Inr n \<Rightarrow>
                     (case importPublicKey pk of
                        Inl e \<Rightarrow>
                          recoverWithPassword emk erk pk password
                            (w\<lparr>dev := (dev w)\<lparr>privateKey := Some n\<rparr>\<rparr>)
                      | Inr m \<Rightarrow>
                          Inr (w\<lparr>dev := (dev w)\<lparr>privateKey := Some n, publicKey := Some m\<rparr>\<rparr>)))
            | _ \<Rightarrow> Inl (TypeError ''Cannot read properties of undefined'', w)))"

definition handleLogin :: "string \<Rightarrow> string \<Rightarrow> world \<Rightarrow> world" where
  "handleLogin mail password w =
     (if mail = [] \<or> password = []
      then w\<lparr>dev := showAlert ''error'' ''Please fill in all fields'' (dev w)\<rparr>
      else
        let (masterKey, dv1) = loadMasterKeyFromIndexedDB (dev w);
            authPassword = deriveAuthPassword password mail;
            (result, p') = signInWithPassword mail authPassword (supabase w);
            w1 = w\<lparr>supabase := p', dev := dv1\<rparr>
        in case result of
             Inl e \<Rightarrow> caught e w1
           | Inr u \<Rightarrow>
               (let w2 = w1\<lparr>dev := dv1\<lparr>currentUser := Some u, session := Some u\<rparr>\<rparr>
                in case (case masterKey of
                           None \<Rightarrow> loginWithoutMasterKey u password w2
                         | Some mk \<Rightarrow> loginWithMasterKey u password mk w2) of
                     Inl (e, w3) \<Rightarrow> caught e w3
                   | Inr w3 \<Rightarrow>
                       w3\<lparr>dev := initializeChat
                           (showAlert ''success'' ''Login successful! Loading your chats...''
                              (dev w3))\<rparr>))"

subsection \<open>handleLogout\<close>

text \<open>
  app.js declares \<open>handleLogout\<close> twice; the later declaration is the one the page runs.
\<close>

definition handleLogout :: "world \<Rightarrow> world" where
  "handleLogout w =
     (let dv1 = signOut (dev w);
          dv2 = (if socket dv1 then dv1\<lparr>socket := False\<rparr> else dv1);
          dv3 = clearKeys dv2;
          dv4 = dv3\<lparr>currentUser := None, currentChatId := None, chatSection := False\<rparr>
      in w\<lparr>dev := showAlert ''info'' ''Logged out successfully'' dv4\<rparr>)"

subsection \<open>loadMessageHistory\<close>

text \<open>
  Lines 682 to 705: make sure there is a chat key, from the local stores or from the
  server's record addressed to the current user.  A throw here reaches the outer
  \<open>catch\<close> of \<open>loadMessageHistory\<close>.  Without a current user, \<open>find\<close> throws as soon
  as it has a record to look at.
\<close>

definition ensureChatKey :: "chat_id \<Rightarrow> world \<Rightarrow> (js_error \<times> world) + world" where
  "ensureChatKey chatId w =
     (case loadChatKey chatId (dev w) of
        Inl e \<Rightarrow> Inl (e, w)
      | Inr (Some k, dv) \<Rightarrow> Inr (w\<lparr>dev := dv\<rparr>)
      | Inr (None, dv) \<Rightarrow>
          (let w1 = w\<lparr>dev := dv\<rparr>
           in case session dv of
                None \<Rightarrow> Inl (TypeError ''Cannot read properties of null (reading 'access_token')'', w1)
              | Some s \<Rightarrow>
                  (let keysResponse = get_chat_keys (server w1) (uid s) chatId
                   in if \<not> ok keysResponse then Inr w1
                      else
                        (case (snd keysResponse, currentUser dv) of
                           (ChatKeysBody keys, Some u) \<Rightarrow>
                             (case find (\<lambda>key. recipient_id key = uid u) keys of
                                None \<Rightarrow> Inr w1
                              | Some ourKey \<Rightarrow>
                                  (case decryptChatKey (encrypted_chat_key ourKey) chatId dv of
                                     Inl e \<Rightarrow> Inl (e, w1)
                                   | Inr (k, dv') \<Rightarrow> Inr (w1\<lparr>dev := dv'\<rparr>)))
                         | (ChatKeysBody keys, None) \<Rightarrow>
                             if keys = [] then Inr w1
                             else Inl (TypeError ''Cannot read properties of null (reading 'id')'',
                                       w1)
                         | _ \<Rightarrow>
                             Inl (TypeError ''Cannot read properties of undefined (reading 'find')'',
                                  w1)))))"

text \<open>
  The \<open>try\<close> part of the loop body: decrypt one message and append it to the pane.  On a
  failure the device is returned as the attempt left it.
\<close>

definition showMessage :: "chat_id \<Rightarrow> Message \<Rightarrow> device \<Rightarrow> device + device" where
  "showMessage chatId m dv =
     (let nonce = (case metadata_iv m of
                     None \<Rightarrow> Text []
                   | Some i \<Rightarrow> if truthy i then i else Text []);
          (result, dv1) = decryptMessage (encrypted_content m) nonce chatId dv
      in case (result, currentUser dv1) of
           (Inr plaintext, Some u) \<Rightarrow>
             Inr (dv1\<lparr>messagesDiv := messagesDiv dv1 @
                        [if message_sender_id m = uid u then SentMessage plaintext
                         else ReceivedMessage plaintext]\<rparr>)
         | _ \<Rightarrow> Inl dv1)"

text \<open>
  Lines 749 to 811, run at the first failure of a pass: remove the \<open>localStorage\<close> entry
  named \<open>chatKeys_\<close> followed by the chat id, fetch the chat's keys again and decrypt the
  one addressed to the current user.  The result says whether the history is to be
  loaded again.
\<close>

definition refetchChatKey :: "chat_id \<Rightarrow> user \<Rightarrow> world \<Rightarrow> bool \<times> world" where
  "refetchChatKey chatId s w =
     (let dv1 = (dev w)\<lparr>localStorage := (localStorage (dev w))(''chatKeys_'' @ chatId := None)\<rparr>;
          w1 = w\<lparr>dev := dv1\<rparr>;
          keysResponse = get_chat_keys (server w1) (uid s) chatId
      in if \<not> ok keysResponse then (False, w1)
         else
           (case (snd keysResponse, currentUser dv1) of
              (ChatKeysBody keys, Some u) \<Rightarrow>
                (case find (\<lambda>key. recipient_id key = uid u) keys of
                   None \<Rightarrow> (False, w1)
                 | Some ourKey \<Rightarrow>
                     (case decryptChatKey (encrypted_chat_key ourKey) chatId dv1 of
                        Inl e \<Rightarrow> (False, w1)
                      | Inr (k, dv') \<Rightarrow> (True, w1\<lparr>dev := dv'\<rparr>)))
            | _ \<Rightarrow> (False, w1)))"

definition placeholder :: "world \<Rightarrow> world" where
  "placeholder w = w\<lparr>dev := (dev w)\<lparr>messagesDiv := messagesDiv (dev w) @ [Undecryptable]\<rparr>\<rparr>"

text \<open>
  The \<open>for\<close> loop over the messages; \<open>reload\<close> is the recursive call
  \<open>loadMessageHistory(chatId, retryAttempt + 1)\<close>, whose result the loop returns at once.
\<close>

fun decryptLoop ::
  "(world \<Rightarrow> world) \<Rightarrow> chat_id \<Rightarrow> user \<Rightarrow> Message list \<Rightarrow> bool \<Rightarrow> world \<Rightarrow> world" where
  "decryptLoop reload chatId s [] firstDecryptFailed w = w"
| "decryptLoop reload chatId s (m # ms) firstDecryptFailed w =
     (case showMessage chatId m (dev w) of
        Inr dv \<Rightarrow> decryptLoop reload chatId s ms firstDecryptFailed (w\<lparr>dev := dv\<rparr>)
      | Inl dv \<Rightarrow>
          if \<not> firstDecryptFailed
          then (case refetchChatKey chatId s (w\<lparr>dev := dv\<rparr>) of
                  (True, w1) \<Rightarrow> reload w1
                | (False, w1) \<Rightarrow> decryptLoop reload chatId s ms True (placeholder w1))
          else decryptLoop reload chatId s ms True (placeholder (w\<lparr>dev := dv\<rparr>)))"

function loadMessageHistory :: "chat_id \<Rightarrow> nat \<Rightarrow> world \<Rightarrow> world" where
  "loadMessageHistory chatId retryAttempt w =
     (if retryAttempt > 1 then w
      else
        let w1 = w\<lparr>dev := (dev w)\<lparr>messagesDiv := []\<rparr>\<rparr>
        in case ensureChatKey chatId w1 of
             Inl (e, w2) \<Rightarrow> w2
           | Inr w2 \<Rightarrow>
               (case session (dev w2) of
                  None \<Rightarrow> w2
                | Some s \<Rightarrow>
                    (let response = get_messages (server w2) (uid s) chatId 50
                     in if \<not> ok response then w2
                        else
                          (case snd response of
                             MessagesBody msgs \<Rightarrow>
                               decryptLoop (\<lambda>w'. loadMessageHistory chatId (retryAttempt + 1) w')
                                 chatId s msgs False w2
                           | _ \<Rightarrow> w2))))"
  by pat_completeness auto
termination
  by (relation "measure (\<lambda>(chatId, retryAttempt, w). 2 - retryAttempt)") auto

declare loadMessageHistory.simps [simp del]

subsection \<open>handleStartChat\<close>






section \<open>Example data\<close>

definition alice :: user_id where "alice = ''a11ce000-0000-4000-8000-000000000001''"
definition bob :: user_id where "bob = ''b0b00000-0000-4000-8000-000000000002''"
definition carol :: user_id where "carol = ''ca401000-0000-4000-8000-000000000003''"
definition dave :: user_id where "dave = ''da7e0000-0000-4000-8000-000000000004''"
definition chat1 :: chat_id where "chat1 = ''c4a70000-0000-4000-8000-000000000001''"

definition emk_ex :: "nat \<Rightarrow> EncryptedMasterKey" where
  "emk_ex n = \<lparr>wrapped = WrappedKey (Text ''pw'') (Sha256 (Text ''a@x'')) (Nonce 1) n,
              iv = Nonce 1, salt = Sha256 (Text ''a@x'')\<rparr>"

definition erk_ex :: "nat \<Rightarrow> nat \<Rightarrow> EncryptedRSAPrivateKey" where
  "erk_ex mk n = \<lparr>encrypted = AesGcm mk (Nonce 2) (Pkcs8 n), rsa_iv = Nonce 2\<rparr>"

text \<open>
  A directory in which Alice (key pair 1) and Bob (key pair 2) have uploaded their keys
  and Alice has shared the key of their direct chat with herself and with Bob.
\<close>

definition db_rotation :: db where
  "db_rotation =
     \<lparr>user_profiles =
        [\<lparr>profile_id = alice, profile_email = ''alice@test.com''\<rparr>,
         \<lparr>profile_id = bob, profile_email = ''bob@test.com''\<rparr>,
         \<lparr>profile_id = carol, profile_email = ''carol@test.com''\<rparr>],
      user_keys =
        [\<lparr>user_id = alice, public_key = PublicJwk 1, encrypted_master_key = Some (emk_ex 10),
          encrypted_rsa_private_key = Some (erk_ex 10 1), updated_at = 1\<rparr>,
         \<lparr>user_id = bob, public_key = PublicJwk 2, encrypted_master_key = Some (emk_ex 20),
          encrypted_rsa_private_key = Some (erk_ex 20 2), updated_at = 2\<rparr>],
      chat_keys =
        [\<lparr>chat_id = chat1, sender_id = alice, recipient_id = alice,
          encrypted_chat_key = RsaOaep 1 (RawKey 100)\<rparr>,
         \<lparr>chat_id = chat1, sender_id = alice, recipient_id = bob,
          encrypted_chat_key = RsaOaep 2 (RawKey 100)\<rparr>],
      chats = [\<lparr>id = chat1, type = Direct, participants = [alice, bob], created_by = alice\<rparr>],
      messages = []\<rparr>"

text \<open>Alice as a signed-in user, and a browser that has never been used.\<close>

definition alice_user :: user where
  "alice_user = \<lparr>uid = alice, email = ''alice@test.com''\<rparr>"

definition dev_fresh :: device where
  "dev_fresh =
     \<lparr>privateKey = None, publicKey = None, chatKeys = Map.empty, localStorage = Map.empty,
      indexedDB = NoDatabase, session = None, currentUser = None, currentChatId = None,
      currentRecipientId = None, socket = False, chatSection = False, alerts = [],
      messagesDiv = [], recoveryModal = None\<rparr>"

definition no_provider :: provider where
  "no_provider = \<lparr>accounts = [], received = []\<rparr>"

definition db_empty :: db where
  "db_empty = \<lparr>user_profiles = [], user_keys = [], chat_keys = [], chats = [], messages = []\<rparr>"

definition world_new :: world where
  "world_new = \<lparr>server = db_empty, supabase = no_provider, dev = dev_fresh\<rparr>"

definition alice_draws :: draws where
  "alice_draws =
     \<lparr>masterKeyDraw = 10, wrapNonce = 1, userIdDraw = alice, keyPairDraw = 1,
      privateKeyNonce = 2, recoverySalt = 3, uploadTime = 1\<rparr>"

text \<open>Alice's browser after login: key pair 1 in memory, master key 10 in the vault.\<close>

definition dev_alice :: device where
  "dev_alice =
     dev_fresh\<lparr>privateKey := Some 1, publicKey := Some 1,
       indexedDB := Keys [''masterKey'' \<mapsto> RawKey 10],
       session := Some alice_user, currentUser := Some alice_user, socket := True,
       chatSection := True\<rparr>"

text \<open>Alice and Bob have signed up; no conversation exists yet.\<close>

definition world_two_users :: world where
  "world_two_users =
     \<lparr>server = db_rotation\<lparr>chat_keys := [], chats := []\<rparr>, supabase = no_provider,
      dev = dev_alice\<rparr>"

text \<open>
  Alice's browser holds a session and, in its vault, master key 11, while her account's
  private key is wrapped under master key 10.
\<close>

definition world_mismatch :: world where
  "world_mismatch =
     \<lparr>server = db_rotation, supabase = no_provider,
      dev = dev_fresh\<lparr>indexedDB := Keys [''masterKey'' \<mapsto> RawKey 11],
                        session := Some alice_user\<rparr>\<rparr>"

text \<open>
  A history of three messages from Bob.  The conversation key was regenerated at some
  point: the directory's records wrap key 200, the second message was encrypted under
  the earlier key 100.  Alice's browser has key 200 cached.
\<close>

definition msg :: "nat \<Rightarrow> nat \<Rightarrow> string \<Rightarrow> Message" where
  "msg key n content =
     \<lparr>message_chat_id = chat1, message_sender_id = bob,
      encrypted_content = AesGcm key (Nonce n) (Text content), metadata_iv = Some (Nonce n),
      created_at = n\<rparr>"

definition db_history :: db where
  "db_history =
     db_rotation\<lparr>
       chat_keys :=
         [\<lparr>chat_id = chat1, sender_id = bob, recipient_id = alice,
           encrypted_chat_key = RsaOaep 1 (RawKey 200)\<rparr>,
          \<lparr>chat_id = chat1, sender_id = bob, recipient_id = bob,
           encrypted_chat_key = RsaOaep 2 (RawKey 200)\<rparr>],
       messages := [msg 200 1 ''one'', msg 100 2 ''two'', msg 200 3 ''three'']\<rparr>"

definition world_history :: world where
  "world_history =
     \<lparr>server = db_history, supabase = no_provider,
      dev = dev_alice\<lparr>chatKeys := [chat1 \<mapsto> 200],
                        localStorage := [''chatKey_'' @ chat1 \<mapsto> RawKey 200]\<rparr>\<rparr>"

text \<open>The same history, with nothing cached in Alice's browser.\<close>

definition world_uncached :: world where
  "world_uncached = \<lparr>server = db_history, supabase = no_provider, dev = dev_alice\<rparr>"

text \<open>
  The same history, with a stale key 300 cached in Alice's browser and no record for the
  chat in the directory.
\<close>

definition world_stale :: world where
  "world_stale =
     \<lparr>server = db_history\<lparr>chat_keys := []\<rparr>, supabase = no_provider,
      dev = dev_alice\<lparr>chatKeys := [chat1 \<mapsto> 300],
                        localStorage := [''chatKey_'' @ chat1 \<mapsto> RawKey 300]\<rparr>\<rparr>"

text \<open>The world after Alice has signed up on a new browser.\<close>

definition world_signed_up :: world where
  "world_signed_up = handleSignup ''alice@test.com'' ''hunter22'' alice_draws world_new"

lemmas ex_defs = alice_def bob_def carol_def chat1_def emk_ex_def erk_ex_def db_rotation_def

lemmas client_defs = alice_user_def dev_fresh_def no_provider_def db_empty_def world_new_def
  alice_draws_def dev_alice_def world_two_users_def world_mismatch_def msg_def db_history_def
  world_history_def world_uncached_def world_stale_def

section \<open>Lemmas on the tables\<close>

lemma single_Some_iff: "single xs = Some r \<longleftrightarrow> xs = [r]"
  by (cases xs rule: single.cases) auto

lemma filter_upsert_existing:
  assumes "filter conflict xs = [y]" and "\<And>r. conflict r \<Longrightarrow> conflict (overwrite r)"
  shows "filter conflict (upsert conflict overwrite fresh xs) = [overwrite y]"
proof -
  from assms(1) have "filter conflict xs \<noteq> []" by simp
  then have ex: "list_ex conflict xs"
    by (auto simp: list_ex_iff filter_empty_conv)
  have "filter conflict (map (\<lambda>r. if conflict r then overwrite r else r) ys)
          = map overwrite (filter conflict ys)" for ys
    using assms(2) by (induction ys) auto
  then have "filter conflict (map (\<lambda>r. if conflict r then overwrite r else r) xs) = [overwrite y]"
    using assms(1) by simp
  with ex show ?thesis by (simp add: upsert_def)
qed

lemma upsert_overwrite_twice:
  assumes "conflict row"
  shows "upsert conflict (\<lambda>r. row') row' (upsert conflict (\<lambda>r. row) row xs)
           = upsert conflict (\<lambda>r. row') row' xs"
proof (cases "list_ex conflict xs")
  case True
  have "list_ex conflict (map (\<lambda>r. if conflict r then row else r) xs)"
    using True assms by (induction xs) auto
  moreover have "map (\<lambda>r. if conflict r then row' else r) (map (\<lambda>r. if conflict r then row else r) xs)
      = map (\<lambda>r. if conflict r then row' else r) xs"
    using assms by (induction xs) auto
  ultimately show ?thesis using True by (simp add: upsert_def)
next
  case False
  then have "map (\<lambda>r. if conflict r then row' else r) xs = xs"
    by (induction xs) auto
  with False assms show ?thesis by (simp add: upsert_def)
qed

lemma filter_key_distinct:
  "distinct (map f xs) \<Longrightarrow> length (filter (\<lambda>r. f r = k) xs) \<le> 1"
proof (induction xs)
  case Nil
  then show ?case by simp
next
  case (Cons x xs)
  show ?case
  proof (cases "f x = k")
    case True
    from Cons.prems have "f x \<notin> f ` set xs" by simp
    with True have "f y \<noteq> k" if "y \<in> set xs" for y
      using that by blast
    then have "filter (\<lambda>r. f r = k) xs = []"
      by (simp add: filter_empty_conv)
    with True show ?thesis by simp
  next
    case False
    with Cons show ?thesis by auto
  qed
qed

lemma upsert_overwrite_single:
  assumes "length (filter conflict xs) \<le> 1" "conflict row"
  shows "filter conflict (upsert conflict (\<lambda>r. row) row xs) = [row]"
proof (cases "list_ex conflict xs")
  case True
  then have "filter conflict xs \<noteq> []" by (auto simp: list_ex_iff filter_empty_conv)
  with assms(1) obtain y where y: "filter conflict xs = [y]"
    by (cases "filter conflict xs") auto
  have "filter conflict (map (\<lambda>r. if conflict r then row else r) xs) = map (\<lambda>r. row) (filter conflict xs)"
    using assms(2) by (induction xs) auto
  with True y show ?thesis
    by (simp add: upsert_def)
next
  case False
  then have "filter conflict xs = []"
    by (auto simp: list_ex_iff filter_empty_conv)
  with False assms(2) show ?thesis by (simp add: upsert_def)
qed

lemma deleteUserChatKeys_none:
  "k \<in> set (chat_keys (snd (deleteUserChatKeys u d))) \<Longrightarrow> recipient_id k \<noteq> u \<and> sender_id k \<noteq> u"
  by (auto simp: deleteUserChatKeys_def Let_def)

lemma list_ex_filter_single: "filter P xs = [y] \<Longrightarrow> list_ex P xs"
  by (auto simp: list_ex_iff filter_eq_Cons_iff)



lemma isUserInChat_references: "isUserInChat d c u \<Longrightarrow> references_chats d c"
  by (auto simp: isUserInChat_def references_chats_def single_Some_iff
      intro: list_ex_filter_single split: option.splits)

lemma upsertPublicKey_existing:
  assumes "getPublicKey d u = Some k"
  shows "\<exists>row. fst (upsertPublicKey u pk now d) = Some row"
proof -
  from assms obtain r where r: "filter (\<lambda>r. user_id r = u) (user_keys d) = [r]"
    by (auto simp: getPublicKey_def single_Some_iff split: option.splits)
  then have ex: "list_ex (\<lambda>r. user_id r = u) (user_keys d)"
    by (rule list_ex_filter_single)
  have "filter (\<lambda>r. user_id r = u)
          (upsert (\<lambda>r. user_id r = u) (\<lambda>r. r\<lparr>public_key := pk, updated_at := now\<rparr>)
             \<lparr>user_id = u, public_key = pk, encrypted_master_key = None,
              encrypted_rsa_private_key = None, updated_at = now\<rparr> (user_keys d))
        = [r\<lparr>public_key := pk, updated_at := now\<rparr>]"
    using r by (rule filter_upsert_existing) simp
  with ex show ?thesis by (simp add: upsertPublicKey_def Let_def)
qed

text \<open>A user with a profile has every upload accepted, a user without one only an update.\<close>

lemma uploadUserKeys_accepted:
  assumes "references_user_profiles d u"
  shows "uploadUserKeys u pk mk rk t d =
     (let row = \<lparr>user_id = u, public_key = pk, encrypted_master_key = Some mk,
                 encrypted_rsa_private_key = Some rk, updated_at = t\<rparr>;
          rows = upsert (\<lambda>r. user_id r = u) (\<lambda>r. row) row (user_keys d)
      in (single (filter (\<lambda>r. user_id r = u) rows), d\<lparr>user_keys := rows\<rparr>))"
  using assms by (simp add: uploadUserKeys_def Let_def)

lemma uploadUserKeys_refused:
  assumes "\<not> list_ex (\<lambda>r. user_id r = u) (user_keys d)" "\<not> references_user_profiles d u"
  shows "uploadUserKeys u pk mk rk t d = (None, d)"
  using assms by (simp add: uploadUserKeys_def Let_def)

lemma uploadUserKeys_twice:
  assumes "references_user_profiles d u"
  shows "snd (uploadUserKeys u pk mk rk t2 (snd (uploadUserKeys u pk mk rk t1 d)))
     = snd (uploadUserKeys u pk mk rk t2 d)"
proof -
  let ?d1 = "snd (uploadUserKeys u pk mk rk t1 d)"
  have "references_user_profiles ?d1 u"
    using assms by (simp add: uploadUserKeys_accepted Let_def references_user_profiles_def)
  then show ?thesis
    using assms by (simp add: uploadUserKeys_accepted Let_def upsert_overwrite_twice)
qed

lemma uploadUserKeys_one_row:
  assumes "distinct (map user_id (user_keys d))" "references_user_profiles d u"
  shows "filter (\<lambda>r. user_id r = u) (user_keys (snd (uploadUserKeys u pk mk rk t d)))
         = [\<lparr>user_id = u, public_key = pk, encrypted_master_key = Some mk,
              encrypted_rsa_private_key = Some rk, updated_at = t\<rparr>]"
proof -
  have "length (filter (\<lambda>r. user_id r = u) (user_keys d)) \<le> 1"
    using assms(1) by (rule filter_key_distinct)
  then show ?thesis
    using assms(2) by (simp add: uploadUserKeys_accepted Let_def upsert_overwrite_single)
qed

text \<open>
  A share between users with profiles is accepted, on a conversation that exists or on a
  record that is already there.
\<close>

lemma shareChatKey_accepted:
  assumes "references_user_profiles d s" "references_user_profiles d r"
    and "references_chats d c \<or> list_ex (\<lambda>k. chat_id k = c \<and> recipient_id k = r) (chat_keys d)"
  shows "shareChatKey c s r e d =
     (let row = \<lparr>chat_id = c, sender_id = s, recipient_id = r, encrypted_chat_key = e\<rparr>;
          rows = upsert (\<lambda>k. chat_id k = c \<and> recipient_id k = r) (\<lambda>k. row) row (chat_keys d)
      in (single (filter (\<lambda>k. chat_id k = c \<and> recipient_id k = r) rows),
          d\<lparr>chat_keys := rows\<rparr>))"
  using assms by (auto simp: shareChatKey_def Let_def)

lemma shareChatKey_refused:
  assumes "\<not> list_ex (\<lambda>k. chat_id k = c \<and> recipient_id k = r) (chat_keys d)"
    and "\<not> references_user_profiles d r"
  shows "shareChatKey c s r e d = (None, d)"
  using assms by (simp add: shareChatKey_def Let_def)

lemma shareChatKey_twice:
  assumes "references_user_profiles d s1" "references_user_profiles d s2"
    "references_user_profiles d r" "references_chats d c"
  shows "snd (shareChatKey c s2 r e2 (snd (shareChatKey c s1 r e1 d)))
           = snd (shareChatKey c s2 r e2 d)"
proof -
  let ?d1 = "snd (shareChatKey c s1 r e1 d)"
  have "references_user_profiles ?d1 s2" "references_user_profiles ?d1 r"
    "references_chats ?d1 c"
    using assms
    by (simp_all add: shareChatKey_accepted Let_def references_user_profiles_def
        references_chats_def)
  then show ?thesis
    using assms by (simp add: shareChatKey_accepted Let_def upsert_overwrite_twice)
qed

lemma shareChatKey_one_row:
  assumes "distinct (map (\<lambda>k. (chat_id k, recipient_id k)) (chat_keys d))"
    and "references_user_profiles d s" "references_user_profiles d r" "references_chats d c"
  shows "filter (\<lambda>k. chat_id k = c \<and> recipient_id k = r) (chat_keys (snd (shareChatKey c s r e d)))
         = [\<lparr>chat_id = c, sender_id = s, recipient_id = r, encrypted_chat_key = e\<rparr>]"
proof -
  have "length (filter (\<lambda>k. (chat_id k, recipient_id k) = (c, r)) (chat_keys d)) \<le> 1"
    using assms(1) by (rule filter_key_distinct)
  then have "length (filter (\<lambda>k. chat_id k = c \<and> recipient_id k = r) (chat_keys d)) \<le> 1"
    by simp
  then show ?thesis
    using assms(2-4) by (simp add: shareChatKey_accepted Let_def upsert_overwrite_single)
qed

lemma shareChatKey_row_in:
  assumes "references_user_profiles d s" "references_user_profiles d r" "references_chats d c"
  shows "\<lparr>chat_id = c, sender_id = s, recipient_id = r, encrypted_chat_key = e\<rparr>
     \<in> set (chat_keys (snd (shareChatKey c s r e d)))"
  using assms by (auto simp: shareChatKey_accepted Let_def upsert_def list_ex_iff)

lemma share_key_non_participant:
  assumes "getChatById d c = Some chat" "caller \<in> set (participants chat)"
    "rid \<notin> set (participants chat)"
  shows "share_key caller c rid ek d = ((400, Error ''Recipient is not in this chat''), d)"
  using assms by (simp add: share_key_def)

section \<open>The account-keys upload and key rotation\<close>

text \<open>
  C1.  Uploading the full key set through \<open>POST /api/keys\<close> for a user who already has
  a public key on file should delete that user's wrapped conversation keys and report
  \<open>key_rotation\<close>.  The route does neither: evaluated on a directory where Alice has a
  public key and two wrapped conversation keys, it replaces her public key, answers
  with a bare message that has no \<open>key_rotation\<close> field, and leaves both records in place.
\<close>

theorem post_keys_skips_rotation_cleanup:
  "getPublicKey db_rotation alice = Some (PublicJwk 1)
   \<and> fst (post_keys alice (PublicJwk 3) (emk_ex 10) (erk_ex 10 3) 9 db_rotation)
       = (200, Message ''Keys uploaded successfully'')
   \<and> key_rotation (snd (fst (post_keys alice (PublicJwk 3) (emk_ex 10) (erk_ex 10 3) 9 db_rotation)))
       = None
   \<and> getPublicKey (snd (post_keys alice (PublicJwk 3) (emk_ex 10) (erk_ex 10 3) 9 db_rotation)) alice
       = Some (PublicJwk 3)
   \<and> chat_keys (snd (post_keys alice (PublicJwk 3) (emk_ex 10) (erk_ex 10 3) 9 db_rotation))
       = chat_keys db_rotation
   \<and> length (filter (\<lambda>k. sender_id k = alice \<or> recipient_id k = alice)
        (getAllChatKeys (snd (post_keys alice (PublicJwk 3) (emk_ex 10) (erk_ex 10 3) 9 db_rotation))
           chat1)) = 2"
  by (simp add: ex_defs getPublicKey_def or_null_def post_keys_def uploadKeysSchema_validate_def
      uploadUserKeys_def upsert_def getAllChatKeys_def Let_def)

text \<open>
  C2.  When a user who already has a public key on file uploads a new one through
  \<open>POST /api/users/public-key\<close>, the route reports \<open>key_rotation = true\<close>, and afterwards no
  wrapped conversation-key record names that user as recipient or as sender; listing the
  keys of any conversation returns no record of theirs.
\<close>

theorem public_key_rotation_cleanup:
  assumes "getPublicKey d u = Some k"
  shows "fst (post_public_key u pk now d)
           = (200, PublicKeyStored True ''Public key stored successfully'' True)
       \<and> (\<forall>r \<in> set (chat_keys (snd (post_public_key u pk now d))).
             recipient_id r \<noteq> u \<and> sender_id r \<noteq> u)
       \<and> (\<forall>c. filter (\<lambda>r. sender_id r = u \<or> recipient_id r = u)
                 (getAllChatKeys (snd (post_public_key u pk now d)) c) = [])"
proof -
  obtain row where row: "fst (upsertPublicKey u pk now d) = Some row"
    using upsertPublicKey_existing[OF assms] by blast
  define d1 where "d1 = snd (upsertPublicKey u pk now d)"
  have up: "upsertPublicKey u pk now d = (Some row, d1)"
    using row d1_def by (simp add: prod_eq_iff)
  have post: "post_public_key u pk now d =
      ((200, PublicKeyStored True ''Public key stored successfully'' True),
       snd (deleteUserChatKeys u d1))"
    using assms up by (simp add: post_public_key_def)
  have clean: "\<forall>r \<in> set (chat_keys (snd (deleteUserChatKeys u d1))).
      recipient_id r \<noteq> u \<and> sender_id r \<noteq> u"
    using deleteUserChatKeys_none by blast
  then have "\<forall>c. filter (\<lambda>r. sender_id r = u \<or> recipient_id r = u)
      (getAllChatKeys (snd (deleteUserChatKeys u d1)) c) = []"
    by (auto simp: getAllChatKeys_def filter_empty_conv)
  with post clean show ?thesis by simp
qed

theorem public_key_rotation_cleanup_witness:
  "getPublicKey db_rotation alice = Some (PublicJwk 1)
   \<and> key_rotation (snd (fst (post_public_key alice (PublicJwk 3) 9 db_rotation))) = Some True
   \<and> filter (\<lambda>r. sender_id r = alice \<or> recipient_id r = alice)
        (getAllChatKeys (snd (post_public_key alice (PublicJwk 3) 9 db_rotation)) chat1) = []
   \<and> getAllChatKeys db_rotation chat1 = chat_keys db_rotation
   \<and> length (chat_keys db_rotation) = 2"
proof -
  have h: "getPublicKey db_rotation alice = Some (PublicJwk 1)"
    by (simp add: ex_defs getPublicKey_def or_null_def)
  have l: "getAllChatKeys db_rotation chat1 = chat_keys db_rotation"
    "length (chat_keys db_rotation) = 2"
    by (simp_all add: ex_defs getAllChatKeys_def)
  note t = public_key_rotation_cleanup[OF h, of "PublicJwk 3" 9]
  from t have r: "key_rotation (snd (fst (post_public_key alice (PublicJwk 3) 9 db_rotation)))
      = Some True" by simp
  from t have c: "filter (\<lambda>r. sender_id r = alice \<or> recipient_id r = alice)
        (getAllChatKeys (snd (post_public_key alice (PublicJwk 3) 9 db_rotation)) chat1) = []"
    by blast
  from h l r c show ?thesis by simp
qed

section \<open>Idempotent directory writes\<close>

text \<open>
  C7.  On tables that respect their unique keys, for a user who has a profile (the page
  creates it, through \<open>GET /api/auth/me\<close>, before it uploads), uploading the same account
  keys twice leaves the directory exactly as one upload (made at the time of the second)
  leaves it, with exactly one record for the user; for a conversation that exists and
  senders and a recipient who have a profile, sharing a wrapped conversation key twice for
  the same conversation and recipient leaves exactly one record for that pair, holding the
  sender and key of the later write, and neither second write is refused.
\<close>

theorem directory_upserts_idempotent:
  assumes "distinct (map user_id (user_keys d))"
    and "distinct (map (\<lambda>k. (chat_id k, recipient_id k)) (chat_keys d))"
    and "references_user_profiles d u"
    and "references_chats d c"
    and "references_user_profiles d s1" and "references_user_profiles d s2"
    and "references_user_profiles d r"
  shows "snd (uploadUserKeys u pk mk rk t2 (snd (uploadUserKeys u pk mk rk t1 d)))
           = snd (uploadUserKeys u pk mk rk t2 d)
       \<and> filter (\<lambda>r. user_id r = u)
            (user_keys (snd (uploadUserKeys u pk mk rk t2 (snd (uploadUserKeys u pk mk rk t1 d)))))
           = [\<lparr>user_id = u, public_key = pk, encrypted_master_key = Some mk,
               encrypted_rsa_private_key = Some rk, updated_at = t2\<rparr>]
       \<and> fst (uploadUserKeys u pk mk rk t2 (snd (uploadUserKeys u pk mk rk t1 d))) \<noteq> None
       \<and> snd (shareChatKey c s2 r e2 (snd (shareChatKey c s1 r e1 d)))
           = snd (shareChatKey c s2 r e2 d)
       \<and> filter (\<lambda>k. chat_id k = c \<and> recipient_id k = r)
            (chat_keys (snd (shareChatKey c s2 r e2 (snd (shareChatKey c s1 r e1 d)))))
           = [\<lparr>chat_id = c, sender_id = s2, recipient_id = r, encrypted_chat_key = e2\<rparr>]
       \<and> fst (shareChatKey c s2 r e2 (snd (shareChatKey c s1 r e1 d))) \<noteq> None"
proof -
  have a: "filter (\<lambda>r. user_id r = u) (user_keys (snd (uploadUserKeys u pk mk rk t2 d)))
           = [\<lparr>user_id = u, public_key = pk, encrypted_master_key = Some mk,
               encrypted_rsa_private_key = Some rk, updated_at = t2\<rparr>]"
    using assms(1,3) by (rule uploadUserKeys_one_row)
  have b: "filter (\<lambda>k. chat_id k = c \<and> recipient_id k = r)
             (chat_keys (snd (shareChatKey c s2 r e2 d)))
           = [\<lparr>chat_id = c, sender_id = s2, recipient_id = r, encrypted_chat_key = e2\<rparr>]"
    using assms(2,6,7,4) by (rule shareChatKey_one_row)
  let ?d1 = "snd (uploadUserKeys u pk mk rk t1 d)"
  let ?d2 = "snd (shareChatKey c s1 r e1 d)"
  have ta: "snd (uploadUserKeys u pk mk rk t2 ?d1) = snd (uploadUserKeys u pk mk rk t2 d)"
    using assms(3) by (rule uploadUserKeys_twice)
  have tb: "snd (shareChatKey c s2 r e2 ?d2) = snd (shareChatKey c s2 r e2 d)"
    using assms(5,6,7,4) by (rule shareChatKey_twice)
  have pa: "references_user_profiles ?d1 u"
    using assms(3) by (simp add: uploadUserKeys_accepted Let_def references_user_profiles_def)
  have pb: "references_user_profiles ?d2 s2" "references_user_profiles ?d2 r"
    "references_chats ?d2 c"
    using assms(4-7)
    by (simp_all add: shareChatKey_accepted Let_def references_user_profiles_def
        references_chats_def)
  have fa: "fst (uploadUserKeys u pk mk rk t2 ?d1) =
      single (filter (\<lambda>r. user_id r = u) (user_keys (snd (uploadUserKeys u pk mk rk t2 ?d1))))"
    using pa by (simp add: uploadUserKeys_accepted Let_def)
  have fb: "fst (shareChatKey c s2 r e2 ?d2) =
      single (filter (\<lambda>k. chat_id k = c \<and> recipient_id k = r)
        (chat_keys (snd (shareChatKey c s2 r e2 ?d2))))"
    using pb by (simp add: shareChatKey_accepted Let_def)
  show ?thesis
    unfolding fa fb ta tb a b by simp
qed

theorem directory_upserts_idempotent_witness:
  "distinct (map user_id (user_keys db_rotation))
   \<and> distinct (map (\<lambda>k. (chat_id k, recipient_id k)) (chat_keys db_rotation))
   \<and> references_user_profiles db_rotation carol \<and> references_chats db_rotation chat1
   \<and> references_user_profiles db_rotation alice \<and> references_user_profiles db_rotation bob
   \<and> user_keys (snd (uploadUserKeys carol (PublicJwk 3) (emk_ex 30) (erk_ex 30 3) 6
        (snd (uploadUserKeys carol (PublicJwk 3) (emk_ex 30) (erk_ex 30 3) 5 db_rotation))))
       = user_keys db_rotation @
           [\<lparr>user_id = carol, public_key = PublicJwk 3, encrypted_master_key = Some (emk_ex 30),
             encrypted_rsa_private_key = Some (erk_ex 30 3), updated_at = 6\<rparr>]
   \<and> length (filter (\<lambda>r. user_id r = carol)
        (user_keys (snd (uploadUserKeys carol (PublicJwk 3) (emk_ex 30) (erk_ex 30 3) 6
           (snd (uploadUserKeys carol (PublicJwk 3) (emk_ex 30) (erk_ex 30 3) 5 db_rotation)))))) = 1
   \<and> map encrypted_chat_key (filter (\<lambda>k. chat_id k = chat1 \<and> recipient_id k = bob)
        (chat_keys (snd (shareChatKey chat1 bob bob (RsaOaep 2 (RawKey 101))
           (snd (shareChatKey chat1 alice bob (RsaOaep 2 (RawKey 100)) db_rotation))))))
       = [RsaOaep 2 (RawKey 101)]"
proof -
  have h1: "distinct (map user_id (user_keys db_rotation))"
    by (simp add: ex_defs)
  have h2: "distinct (map (\<lambda>k. (chat_id k, recipient_id k)) (chat_keys db_rotation))"
    by (simp add: ex_defs)
  have p: "references_user_profiles db_rotation carol"
    "references_user_profiles db_rotation alice" "references_user_profiles db_rotation bob"
    by (simp_all add: ex_defs references_user_profiles_def)
  have q: "references_chats db_rotation chat1"
    by (simp add: ex_defs references_chats_def)
  note t = directory_upserts_idempotent[OF h1 h2 p(1) q p(2) p(3) p(3),
      where pk = "PublicJwk 3" and mk = "emk_ex 30" and rk = "erk_ex 30 3" and ?t2.0 = 6
        and ?t1.0 = 5 and ?e2.0 = "RsaOaep 2 (RawKey 101)" and ?e1.0 = "RsaOaep 2 (RawKey 100)"]
  note i = t[THEN conjunct1]
  note a = t[THEN conjunct2, THEN conjunct1]
  note b = t[THEN conjunct2, THEN conjunct2, THEN conjunct2, THEN conjunct2, THEN conjunct1]
  have once: "user_keys (snd (uploadUserKeys carol (PublicJwk 3) (emk_ex 30) (erk_ex 30 3) 6
        db_rotation))
       = user_keys db_rotation @
           [\<lparr>user_id = carol, public_key = PublicJwk 3, encrypted_master_key = Some (emk_ex 30),
             encrypted_rsa_private_key = Some (erk_ex 30 3), updated_at = 6\<rparr>]"
    by (simp add: ex_defs uploadUserKeys_def references_user_profiles_def upsert_def Let_def)
  show ?thesis using h1 h2 p q a b once by (simp add: i)
qed

section \<open>Access control of the key directory\<close>

text \<open>
  C8.  A caller who asks \<open>GET /api/keys/:userId\<close> for another user's wrapped account keys
  gets 403 Forbidden with no key material.  \<open>GET /api/users/:userId/public-key\<close> answers every
  caller alike: the public key when one is on file, 404 otherwise.
\<close>

theorem account_keys_owner_only:
  "(caller \<noteq> userId \<longrightarrow> get_keys d caller userId = (403, Error ''Forbidden''))
   \<and> get_user_public_key d caller userId =
       (case getPublicKey d userId of
          None \<Rightarrow> (404, Error ''Public key not found'')
        | Some k \<Rightarrow> (200, PublicKeyBody k))"
  by (auto simp: get_keys_def get_user_public_key_def)

theorem account_keys_owner_only_witness:
  "bob \<noteq> alice
   \<and> get_keys db_rotation bob alice = (403, Error ''Forbidden'')
   \<and> get_user_public_key db_rotation bob alice = (200, PublicKeyBody (PublicJwk 1))
   \<and> get_user_public_key db_rotation bob carol = (404, Error ''Public key not found'')"
proof -
  have h: "bob \<noteq> alice" by (simp add: ex_defs)
  have k: "getPublicKey db_rotation alice = Some (PublicJwk 1)"
    by (simp add: ex_defs getPublicKey_def or_null_def)
  have n: "get_user_public_key db_rotation bob carol = (404, Error ''Public key not found'')"
    by (simp add: ex_defs get_user_public_key_def getPublicKey_def)
  from account_keys_owner_only[of bob alice db_rotation] h k n show ?thesis by simp
qed

section \<open>The two ways of sharing a conversation key\<close>

text \<open>
  C9, counterexample.  The HTTP route does not answer 400 to every request whose
  recipient is not a participant of the chat: it looks at the chat and at the caller
  first.  Carol, who is not a participant of the chat of Alice and Bob, asks for a key to
  be stored for herself and is answered 403; a request for a chat that does not exist is
  answered 404.
\<close>

theorem share_key_not_always_400:
  "\<not> isUserInChat db_rotation chat1 carol
   \<and> fst (share_key carol chat1 carol (RsaOaep 3 (RawKey 100)) db_rotation)
       = (403, Error ''Not authorized'')
   \<and> \<not> isUserInChat db_empty chat1 carol
   \<and> fst (share_key alice chat1 carol (RsaOaep 3 (RawKey 100)) db_empty)
       = (404, Error ''Chat not found'')"
  by (simp add: ex_defs db_empty_def isUserInChat_def share_key_def getChatById_def)

text \<open>
  C9, amended.  For a recipient who is not a participant of the conversation, the HTTP
  route \<open>POST /api/chats/:chatId/share-key\<close> stores nothing, whoever sends the request; it
  answers 400 when the caller is a participant, 403 when the chat exists and the caller
  is not a participant, 404 when the chat does not exist.  The socket handler
  \<open>chat:key:share\<close> refuses a sender who is not a participant (an error event to the
  caller, nothing stored) and checks nothing else: for a sender who is a participant it
  pushes the wrapped key to the room of the recipient, whoever that is.  It stores the
  record when the database accepts it, which it does when sender and recipient have a
  profile (on a table that respects its unique key the record is then the only one for
  the conversation and the recipient), and it stores nothing when the recipient has no
  profile and no record yet.
\<close>

theorem share_paths_differ:
  assumes "\<not> isUserInChat d c rid"
  shows "snd (share_key anyone c rid ek d) = d
       \<and> (isUserInChat d c anyone \<longrightarrow>
            fst (share_key anyone c rid ek d) = (400, Error ''Recipient is not in this chat''))
       \<and> (getChatById d c \<noteq> None \<and> \<not> isUserInChat d c anyone \<longrightarrow>
            fst (share_key anyone c rid ek d) = (403, Error ''Not authorized''))
       \<and> (getChatById d c = None \<longrightarrow>
            fst (share_key anyone c rid ek d) = (404, Error ''Chat not found''))
       \<and> (\<not> isUserInChat d c sender \<longrightarrow>
            socket_chat_key_share sender c rid ek d
              = ([(CallerSocket, ErrorEvent ''Not authorized'')], d))
       \<and> (isUserInChat d c sender \<longrightarrow>
            socket_chat_key_share sender c rid ek d
              = ([(Room (''user:'' @ rid), ChatKeyReceived c sender ek)],
                 snd (shareChatKey c sender rid ek d)))
       \<and> (isUserInChat d c sender \<and> references_user_profiles d sender
            \<and> references_user_profiles d rid \<longrightarrow>
            \<lparr>chat_id = c, sender_id = sender, recipient_id = rid, encrypted_chat_key = ek\<rparr>
              \<in> set (chat_keys (snd (socket_chat_key_share sender c rid ek d))))
       \<and> (isUserInChat d c sender \<and> references_user_profiles d sender
            \<and> references_user_profiles d rid
            \<and> distinct (map (\<lambda>k. (chat_id k, recipient_id k)) (chat_keys d)) \<longrightarrow>
            filter (\<lambda>k. chat_id k = c \<and> recipient_id k = rid)
              (chat_keys (snd (socket_chat_key_share sender c rid ek d)))
              = [\<lparr>chat_id = c, sender_id = sender, recipient_id = rid,
                  encrypted_chat_key = ek\<rparr>])
       \<and> (isUserInChat d c sender \<and> \<not> references_user_profiles d rid
            \<and> \<not> list_ex (\<lambda>k. chat_id k = c \<and> recipient_id k = rid) (chat_keys d) \<longrightarrow>
            snd (socket_chat_key_share sender c rid ek d) = d)"
proof -
  have http: "snd (share_key anyone c rid ek d) = d"
    using assms
    by (auto simp: share_key_def isUserInChat_def getChatById_def split: option.splits)
  have bad: "fst (share_key anyone c rid ek d) = (400, Error ''Recipient is not in this chat'')"
    if "isUserInChat d c anyone"
    using assms that
    by (auto simp: share_key_def isUserInChat_def getChatById_def split: option.splits)
  have forbidden: "fst (share_key anyone c rid ek d) = (403, Error ''Not authorized'')"
    if "getChatById d c \<noteq> None" "\<not> isUserInChat d c anyone"
    using that
    by (auto simp: share_key_def isUserInChat_def getChatById_def split: option.splits)
  have missing: "fst (share_key anyone c rid ek d) = (404, Error ''Chat not found'')"
    if "getChatById d c = None"
    using that by (simp add: share_key_def)
  have refused: "socket_chat_key_share sender c rid ek d
      = ([(CallerSocket, ErrorEvent ''Not authorized'')], d)"
    if "\<not> isUserInChat d c sender"
    using that by (simp add: socket_chat_key_share_def)
  have pushed: "socket_chat_key_share sender c rid ek d
      = ([(Room (''user:'' @ rid), ChatKeyReceived c sender ek)],
         snd (shareChatKey c sender rid ek d))"
    if "isUserInChat d c sender"
    using that by (simp add: socket_chat_key_share_def split_beta)
  have stored: "\<lparr>chat_id = c, sender_id = sender, recipient_id = rid, encrypted_chat_key = ek\<rparr>
           \<in> set (chat_keys (snd (socket_chat_key_share sender c rid ek d)))"
    if "isUserInChat d c sender" "references_user_profiles d sender"
      "references_user_profiles d rid"
  proof -
    from that(1) have chat: "references_chats d c" by (rule isUserInChat_references)
    have "\<lparr>chat_id = c, sender_id = sender, recipient_id = rid, encrypted_chat_key = ek\<rparr>
        \<in> set (chat_keys (snd (shareChatKey c sender rid ek d)))"
      using that(2,3) chat by (rule shareChatKey_row_in)
    then show ?thesis using pushed[OF that(1)] by simp
  qed
  have alone: "filter (\<lambda>k. chat_id k = c \<and> recipient_id k = rid)
              (chat_keys (snd (socket_chat_key_share sender c rid ek d)))
              = [\<lparr>chat_id = c, sender_id = sender, recipient_id = rid,
                  encrypted_chat_key = ek\<rparr>]"
    if "isUserInChat d c sender" "references_user_profiles d sender"
      "references_user_profiles d rid"
      "distinct (map (\<lambda>k. (chat_id k, recipient_id k)) (chat_keys d))"
  proof -
    from that(1) have chat: "references_chats d c" by (rule isUserInChat_references)
    have "filter (\<lambda>k. chat_id k = c \<and> recipient_id k = rid)
              (chat_keys (snd (shareChatKey c sender rid ek d)))
              = [\<lparr>chat_id = c, sender_id = sender, recipient_id = rid,
                  encrypted_chat_key = ek\<rparr>]"
      using that(4,2,3) chat by (rule shareChatKey_one_row)
    then show ?thesis using pushed[OF that(1)] by simp
  qed
  have unstored: "snd (socket_chat_key_share sender c rid ek d) = d"
    if "isUserInChat d c sender" "\<not> references_user_profiles d rid"
      "\<not> list_ex (\<lambda>k. chat_id k = c \<and> recipient_id k = rid) (chat_keys d)"
    using pushed[OF that(1)] shareChatKey_refused[OF that(3,2)] by simp
  show ?thesis
    by (intro conjI impI; (elim conjE)?;
        (rule http bad forbidden missing refused pushed stored alone unstored; assumption))
qed

text \<open>
  Alice and Bob are the participants of the chat; Carol has a profile and is not one of
  them, Dave has no profile.
\<close>

theorem share_paths_differ_witness:
  "\<not> isUserInChat db_rotation chat1 carol
   \<and> isUserInChat db_rotation chat1 alice
   \<and> share_key alice chat1 carol (RsaOaep 3 (RawKey 100)) db_rotation
       = ((400, Error ''Recipient is not in this chat''), db_rotation)
   \<and> getChatKey db_rotation chat1 carol = None
   \<and> socket_chat_key_share carol chat1 carol (RsaOaep 3 (RawKey 100)) db_rotation
       = ([(CallerSocket, ErrorEvent ''Not authorized'')], db_rotation)
   \<and> fst (socket_chat_key_share alice chat1 carol (RsaOaep 3 (RawKey 100)) db_rotation)
       = [(Room (''user:'' @ carol), ChatKeyReceived chat1 alice (RsaOaep 3 (RawKey 100)))]
   \<and> references_user_profiles db_rotation alice \<and> references_user_profiles db_rotation carol
   \<and> filter (\<lambda>k. chat_id k = chat1 \<and> recipient_id k = carol)
        (chat_keys (snd (socket_chat_key_share alice chat1 carol (RsaOaep 3 (RawKey 100))
           db_rotation)))
       = [\<lparr>chat_id = chat1, sender_id = alice, recipient_id = carol,
           encrypted_chat_key = RsaOaep 3 (RawKey 100)\<rparr>]
   \<and> getChatKey (snd (shareChatKey chat1 alice carol (RsaOaep 3 (RawKey 100)) db_rotation))
        chat1 carol = Some (RsaOaep 3 (RawKey 100))
   \<and> \<not> isUserInChat db_rotation chat1 dave
   \<and> fst (socket_chat_key_share alice chat1 dave (RsaOaep 4 (RawKey 100)) db_rotation)
       = [(Room (''user:'' @ dave), ChatKeyReceived chat1 alice (RsaOaep 4 (RawKey 100)))]
   \<and> snd (socket_chat_key_share alice chat1 dave (RsaOaep 4 (RawKey 100)) db_rotation)
       = db_rotation"
proof -
  have h: "\<not> isUserInChat db_rotation chat1 carol"
    and a: "isUserInChat db_rotation chat1 alice"
    and hd: "\<not> isUserInChat db_rotation chat1 dave"
    by (simp_all add: ex_defs dave_def isUserInChat_def)
  have p: "references_user_profiles db_rotation alice" "references_user_profiles db_rotation carol"
    and np: "\<not> references_user_profiles db_rotation dave"
    by (simp_all add: ex_defs dave_def references_user_profiles_def)
  have u: "distinct (map (\<lambda>k. (chat_id k, recipient_id k)) (chat_keys db_rotation))"
    by (simp add: ex_defs)
  have nr: "\<not> list_ex (\<lambda>k. chat_id k = chat1 \<and> recipient_id k = dave) (chat_keys db_rotation)"
    by (simp add: ex_defs dave_def)
  have g: "getChatKey db_rotation chat1 carol = None"
    by (simp add: ex_defs getChatKey_def)
  have s: "getChatKey (snd (shareChatKey chat1 alice carol (RsaOaep 3 (RawKey 100)) db_rotation))
        chat1 carol = Some (RsaOaep 3 (RawKey 100))"
    by (simp add: ex_defs getChatKey_def shareChatKey_def references_user_profiles_def
        references_chats_def upsert_def or_null_def Let_def)
  note t1 = share_paths_differ[OF h, where anyone = alice and sender = alice
      and ek = "RsaOaep 3 (RawKey 100)"]
  note t2 = share_paths_differ[OF h, where anyone = alice and sender = carol
      and ek = "RsaOaep 3 (RawKey 100)"]
  note t3 = share_paths_differ[OF hd, where anyone = alice and sender = alice
      and ek = "RsaOaep 4 (RawKey 100)"]
  have c1: "snd (share_key alice chat1 carol (RsaOaep 3 (RawKey 100)) db_rotation) = db_rotation"
    using t1 by blast
  have c2: "fst (share_key alice chat1 carol (RsaOaep 3 (RawKey 100)) db_rotation)
      = (400, Error ''Recipient is not in this chat'')"
    using t1 a by blast
  have c3: "socket_chat_key_share carol chat1 carol (RsaOaep 3 (RawKey 100)) db_rotation
       = ([(CallerSocket, ErrorEvent ''Not authorized'')], db_rotation)"
    using t2 h by blast
  have c4: "socket_chat_key_share alice chat1 carol (RsaOaep 3 (RawKey 100)) db_rotation
      = ([(Room (''user:'' @ carol), ChatKeyReceived chat1 alice (RsaOaep 3 (RawKey 100)))],
         snd (shareChatKey chat1 alice carol (RsaOaep 3 (RawKey 100)) db_rotation))"
    using t1 a by blast
  have c5: "filter (\<lambda>k. chat_id k = chat1 \<and> recipient_id k = carol)
        (chat_keys (snd (socket_chat_key_share alice chat1 carol (RsaOaep 3 (RawKey 100))
           db_rotation)))
       = [\<lparr>chat_id = chat1, sender_id = alice, recipient_id = carol,
           encrypted_chat_key = RsaOaep 3 (RawKey 100)\<rparr>]"
    using t1 a p u by blast
  have c6: "socket_chat_key_share alice chat1 dave (RsaOaep 4 (RawKey 100)) db_rotation
      = ([(Room (''user:'' @ dave), ChatKeyReceived chat1 alice (RsaOaep 4 (RawKey 100)))],
         snd (shareChatKey chat1 alice dave (RsaOaep 4 (RawKey 100)) db_rotation))"
    using t3 a by blast
  have c7: "snd (socket_chat_key_share alice chat1 dave (RsaOaep 4 (RawKey 100)) db_rotation)
       = db_rotation"
    using t3 a np nr by blast
  have c12: "share_key alice chat1 carol (RsaOaep 3 (RawKey 100)) db_rotation
       = ((400, Error ''Recipient is not in this chat''), db_rotation)"
    using c1 c2 by (simp add: prod_eq_iff)
  have c6': "fst (socket_chat_key_share alice chat1 dave (RsaOaep 4 (RawKey 100)) db_rotation)
       = [(Room (''user:'' @ dave), ChatKeyReceived chat1 alice (RsaOaep 4 (RawKey 100)))]"
    using c6 by simp
  have c4': "fst (socket_chat_key_share alice chat1 carol (RsaOaep 3 (RawKey 100)) db_rotation)
       = [(Room (''user:'' @ carol), ChatKeyReceived chat1 alice (RsaOaep 3 (RawKey 100)))]"
    using c4 by simp
  show ?thesis
    using h a c12 g c3 c4' p c5 s hd c6' c7 by simp
qed

section \<open>Lemmas on the page\<close>














lemma openDB_not_a_member: "''openDB'' \<notin> set CryptoHelper_members"
  by (simp add: CryptoHelper_members_def)

lemmas signup_defs = handleSignup_def encryptMasterKeyWithPassword_def deriveAuthPassword_def
  signUp_def get_me_def getProfile_def upsertProfile_def upsert_def references_user_profiles_def
  ok_def generateUserKeys_def
  encryptRSAPrivateKey_def storeMasterKeyInIndexedDB_def exportPublicKey_def post_keys_def
  uploadKeysSchema_validate_def uploadUserKeys_def generateRecoveryKey_def initializeChat_def
  showAlert_def Let_def

lemmas history_defs = ensureChatKey_def loadChatKey_def get_messages_def getChatById_def
  getMessages_def ok_def showMessage_def decryptMessage_def aes_gcm_decrypt_def
  refetchChatKey_def get_chat_keys_def getAllChatKeys_def decryptChatKey_def placeholder_def

lemmas login_defs = handleLogin_def handleLogout_def clearKeys_def signOut_def showAlert_def
  loadMasterKeyFromIndexedDB_def deriveAuthPassword_def signInWithPassword_def
  loginWithMasterKey_def get_keys_def getUserKeys_def ok_def decryptRSAPrivateKey_def
  aes_gcm_decrypt_def importPublicKey_def initializeChat_def Let_def

lemma world_signed_up_eq:
  "world_signed_up =
     \<lparr>server =
        \<lparr>user_profiles = [\<lparr>profile_id = alice, profile_email = ''alice@test.com''\<rparr>],
         user_keys =
           [\<lparr>user_id = alice, public_key = PublicJwk 1,
             encrypted_master_key =
               Some \<lparr>wrapped = WrappedKey (Text ''hunter22'') (Sha256 (Text ''alice@test.com''))
                                (Nonce 1) 10,
                     iv = Nonce 1, salt = Sha256 (Text ''alice@test.com'')\<rparr>,
             encrypted_rsa_private_key =
               Some \<lparr>encrypted = AesGcm 10 (Nonce 2) (Pkcs8 1), rsa_iv = Nonce 2\<rparr>,
             updated_at = 1\<rparr>],
         chat_keys = [], chats = [], messages = []\<rparr>,
      supabase =
        \<lparr>accounts =
           [\<lparr>account_email = ''alice@test.com'',
             credential = Sha256 (Text ''hunter22:auth:alice@test.com''), account_id = alice\<rparr>],
         received = [(''alice@test.com'', Sha256 (Text ''hunter22:auth:alice@test.com''))]\<rparr>,
      dev =
        dev_fresh\<lparr>privateKey := Some 1, publicKey := Some 1,
          localStorage := [''privateKey'' \<mapsto> PrivateJwk 1],
          indexedDB := Keys [''masterKey'' \<mapsto> RawKey 10],
          session := Some alice_user, currentUser := Some alice_user,
          socket := True, chatSection := True,
          alerts := [(''success'',
                      ''Account created! IMPORTANT: Save your recovery key before continuing.'')],
          recoveryModal := Some (RecoveryKey 10 3)\<rparr>\<rparr>"
  by (simp add: world_signed_up_def client_defs ex_defs signup_defs)

lemma login_after_logout:
  "privateKey (dev (handleLogin ''alice@test.com'' ''hunter22'' (handleLogout world_signed_up)))
     = Some 1
   \<and> alerts (dev (handleLogin ''alice@test.com'' ''hunter22'' (handleLogout world_signed_up)))
     = [(''success'', ''Account created! IMPORTANT: Save your recovery key before continuing.''),
        (''info'', ''Logged out successfully''),
        (''success'', ''Login successful! Loading your chats...'')]"
  by (simp add: world_signed_up_eq client_defs ex_defs login_defs)

section \<open>Session restore with a master key that does not fit\<close>

text \<open>
  C3.  When the session is restored and the cached master key fails to decrypt the wrapped
  private key, the user should be told of the key mismatch and the cached master key
  should be purged from the vault.  Evaluated on a browser whose vault holds master key 11
  for an account wrapped under master key 10: the alert is shown and the session is
  closed, but \<open>clearMasterKey\<close> fails inside (\<open>openDB\<close> is not a member of the class), so the
  vault still gives master key 11 to the next attempt.
\<close>

theorem mismatched_master_key_not_purged:
  "fst (loadMasterKeyFromIndexedDB (dev world_mismatch)) = Some 11
   \<and> alerts (dev (handleExistingSession alice_user world_mismatch)) =
       [(''error'', ''Encryption key mismatch. This account may be corrupted. ''
                   @ ''Please delete your account and sign up again.'')]
   \<and> session (dev (handleExistingSession alice_user world_mismatch)) = None
   \<and> privateKey (dev (handleExistingSession alice_user world_mismatch)) = None
   \<and> indexedDB (dev (handleExistingSession alice_user world_mismatch))
       = indexedDB (dev world_mismatch)
   \<and> fst (loadMasterKeyFromIndexedDB (dev (handleExistingSession alice_user world_mismatch)))
       = Some 11"
  by (simp add: client_defs ex_defs handleExistingSession_def loadMasterKeyFromIndexedDB_def
      get_keys_def getUserKeys_def ok_def decryptRSAPrivateKey_def aes_gcm_decrypt_def
      keyMismatch_def clearMasterKey_def call_openDB_def openDB_not_a_member signOut_def
      showAlert_def)

section \<open>Batch decryption of a history\<close>

text \<open>
  C4.  Loading a history should reload the batch at most once after refetching the key,
  and then show every message that still fails as a placeholder.  Evaluated on a history
  of three messages whose second one was encrypted under an earlier key: the first pass
  fails at the second message, refetches the key and reloads; the reload fails at the
  same message, refetches again and calls itself a third time, which returns at once.
  The pane is left with the first message only: no placeholder for the second message,
  and the third message, which decrypts, is not shown.  The second fact: when the
  refetch finds no record the three placeholders are shown, and the stale key is still
  cached, in memory and in \<open>localStorage\<close> (the entry removed is \<open>chatKeys_\<close>..., the cache
  is \<open>chatKey_\<close>...).
\<close>

theorem history_reload_drops_messages:
  "messagesDiv (dev (loadMessageHistory chat1 0 world_history)) = [ReceivedMessage (Text ''one'')]
   \<and> messagesDiv (dev (loadMessageHistory chat1 0 world_stale))
       = [Undecryptable, Undecryptable, Undecryptable]
   \<and> chatKeys (dev (loadMessageHistory chat1 0 world_stale)) chat1 = Some 300
   \<and> localStorage (dev (loadMessageHistory chat1 0 world_stale)) (''chatKey_'' @ chat1)
       = Some (RawKey 300)"
  by (simp add: loadMessageHistory.simps client_defs ex_defs history_defs Let_def)

section \<open>Resolving a conversation key\<close>



section \<open>The derived authentication credential\<close>

text \<open>
  C6.  The auth credential is the SHA-256 hash of the password, the tag \<open>:auth:\<close> and the
  account email, a function of these two inputs alone, and it is not the password
  itself.  All that signup and login send to the authentication provider as a password
  is this credential: one request each, none when the form is refused.
\<close>

theorem derived_credential:
  "deriveAuthPassword password mail = Sha256 (Text (password @ '':auth:'' @ mail))
   \<and> deriveAuthPassword password mail \<noteq> Text password
   \<and> received (supabase (handleSignup mail password r w)) =
       received (supabase w) @
         (if mail = [] \<or> password = [] \<or> length password < 6 then []
          else [(mail, deriveAuthPassword password mail)])
   \<and> received (supabase (handleLogin mail password w)) =
       received (supabase w) @
         (if mail = [] \<or> password = [] then []
          else [(mail, deriveAuthPassword password mail)])"
proof -
  have s: "received (supabase (handleSignup mail password r w)) =
       received (supabase w) @
         (if mail = [] \<or> password = [] \<or> length password < 6 then []
          else [(mail, deriveAuthPassword password mail)])"
    by (auto simp: handleSignup_def Let_def caught_def signUp_def split: prod.splits sum.splits)
  have c: "supabase (caught e w') = supabase w'" for e w'
    by (simp add: caught_def)
  have l1: "supabase w'' = supabase w'"
    if "loginWithoutMasterKey u password w' = Inl (e, w'')" for u w' w'' e
    using that
    by (auto simp: loginWithoutMasterKey_def Let_def split: if_splits body.splits sum.splits)
  have l2: "supabase w'' = supabase w'"
    if "loginWithoutMasterKey u password w' = Inr w''" for u w' w''
    using that
    by (auto simp: loginWithoutMasterKey_def Let_def split: if_splits body.splits sum.splits)
  have r1: "supabase w'' = supabase w'"
    if "recoverWithPassword a b c password w' = Inl (e, w'')" for a b c w' w'' e
    using that by (auto simp: recoverWithPassword_def Let_def split: if_splits sum.splits)
  have r2: "supabase w'' = supabase w'"
    if "recoverWithPassword a b c password w' = Inr w''" for a b c w' w''
    using that by (auto simp: recoverWithPassword_def Let_def split: if_splits sum.splits)
  have m1: "supabase w'' = supabase w'"
    if "loginWithMasterKey u password mk w' = Inl (e, w'')" for u mk w' w'' e
    using that r1
    by (fastforce simp: loginWithMasterKey_def Let_def split: if_splits body.splits sum.splits)
  have m2: "supabase w'' = supabase w'"
    if "loginWithMasterKey u password mk w' = Inr w''" for u mk w' w''
    using that r2
    by (fastforce simp: loginWithMasterKey_def Let_def split: if_splits body.splits sum.splits)
  have l: "received (supabase (handleLogin mail password w)) =
       received (supabase w) @
         (if mail = [] \<or> password = [] then []
          else [(mail, deriveAuthPassword password mail)])"
    by (auto simp: handleLogin_def Let_def c signInWithPassword_def
        dest!: l1 l2 m1 m2 split: prod.splits sum.splits option.splits)
  show ?thesis using s l by (simp add: deriveAuthPassword_def)
qed

theorem derived_credential_witness:
  "received (supabase (handleSignup ''alice@test.com'' ''hunter22'' alice_draws world_new))
     = [(''alice@test.com'', Sha256 (Text ''hunter22:auth:alice@test.com''))]
   \<and> received (supabase (handleLogin ''alice@test.com'' ''hunter22'' world_new))
     = [(''alice@test.com'', Sha256 (Text ''hunter22:auth:alice@test.com''))]
   \<and> accounts (supabase (handleSignup ''alice@test.com'' ''hunter22'' alice_draws world_new))
     = [\<lparr>account_email = ''alice@test.com'',
         credential = Sha256 (Text ''hunter22:auth:alice@test.com''), account_id = alice\<rparr>]"
proof -
  have a: "accounts (supabase (handleSignup ''alice@test.com'' ''hunter22'' alice_draws world_new))
     = [\<lparr>account_email = ''alice@test.com'',
         credential = Sha256 (Text ''hunter22:auth:alice@test.com''), account_id = alice\<rparr>]"
    by (simp add: client_defs ex_defs signup_defs)
  have e: "received (supabase world_new) = []"
    by (simp add: client_defs)
  from derived_credential[of "''hunter22''" "''alice@test.com''" alice_draws world_new] a e
  show ?thesis by simp
qed

section \<open>Logout\<close>

text \<open>
  C10.  Logout clears the key pair and the conversation keys held in memory, and removes
  \<open>privateKey\<close> and every \<open>chatKey_\<close> entry from \<open>localStorage\<close>.  It leaves IndexedDB as it
  was, so loading the master key afterwards gives what it gave before, and the next
  login takes the path that uses the cached master key.
\<close>

theorem logout_keeps_master_key:
  "privateKey (dev (handleLogout w)) = None
   \<and> publicKey (dev (handleLogout w)) = None
   \<and> chatKeys (dev (handleLogout w)) = Map.empty
   \<and> localStorage (dev (handleLogout w)) ''privateKey'' = None
   \<and> (\<forall>c. localStorage (dev (handleLogout w)) (''chatKey_'' @ c) = None)
   \<and> indexedDB (dev (handleLogout w)) = indexedDB (dev w)
   \<and> fst (loadMasterKeyFromIndexedDB (dev (handleLogout w)))
       = fst (loadMasterKeyFromIndexedDB (dev w))"
proof -
  have idb: "indexedDB (dev (handleLogout w)) = indexedDB (dev w)"
    by (simp add: handleLogout_def Let_def showAlert_def clearKeys_def signOut_def)
  have load: "fst (loadMasterKeyFromIndexedDB dv) = fst (loadMasterKeyFromIndexedDB dv')"
    if "indexedDB dv = indexedDB dv'" for dv dv'
    using that
    by (simp add: loadMasterKeyFromIndexedDB_def split: idb.splits option.splits blob.splits)
  have keys: "privateKey (dev (handleLogout w)) = None \<and> publicKey (dev (handleLogout w)) = None
      \<and> chatKeys (dev (handleLogout w)) = Map.empty"
    by (simp add: handleLogout_def Let_def showAlert_def clearKeys_def signOut_def)
  have ls: "localStorage (dev (handleLogout w)) key = None"
    if "startsWith key ''chatKey_'' \<or> key = ''privateKey''" for key
    using that by (simp add: handleLogout_def Let_def showAlert_def clearKeys_def signOut_def)
  have "localStorage (dev (handleLogout w)) (''chatKey_'' @ c) = None" for c
    by (rule ls) (simp add: startsWith_def)
  moreover have "localStorage (dev (handleLogout w)) ''privateKey'' = None"
    by (rule ls) simp
  ultimately show ?thesis
    using idb load[OF idb] keys by blast
qed

theorem logout_keeps_master_key_witness:
  "chatKeys (dev world_history) chat1 = Some 200
   \<and> localStorage (dev world_history) (''chatKey_'' @ chat1) = Some (RawKey 200)
   \<and> privateKey (dev world_history) = Some 1
   \<and> fst (loadMasterKeyFromIndexedDB (dev world_history)) = Some 10
   \<and> chatKeys (dev (handleLogout world_history)) chat1 = None
   \<and> localStorage (dev (handleLogout world_history)) (''chatKey_'' @ chat1) = None
   \<and> privateKey (dev (handleLogout world_history)) = None
   \<and> fst (loadMasterKeyFromIndexedDB (dev (handleLogout world_history))) = Some 10
   \<and> fst (loadMasterKeyFromIndexedDB (dev (handleLogout world_signed_up))) = Some 10
   \<and> privateKey (dev (handleLogin ''alice@test.com'' ''hunter22'' (handleLogout world_signed_up)))
       = Some 1"
proof -
  have b: "chatKeys (dev world_history) chat1 = Some 200"
    "localStorage (dev world_history) (''chatKey_'' @ chat1) = Some (RawKey 200)"
    "privateKey (dev world_history) = Some 1"
    "fst (loadMasterKeyFromIndexedDB (dev world_history)) = Some 10"
    by (simp_all add: client_defs ex_defs loadMasterKeyFromIndexedDB_def)
  note t = logout_keeps_master_key[of world_history]
  from t have k: "chatKeys (dev (handleLogout world_history)) chat1 = None" by simp
  from t have l: "localStorage (dev (handleLogout world_history)) (''chatKey_'' @ chat1) = None"
    by blast
  from t have p: "privateKey (dev (handleLogout world_history)) = None" by simp
  from t b(4) have m: "fst (loadMasterKeyFromIndexedDB (dev (handleLogout world_history))) = Some 10"
    by simp
  have v: "fst (loadMasterKeyFromIndexedDB (dev world_signed_up)) = Some 10"
    by (simp add: world_signed_up_eq client_defs loadMasterKeyFromIndexedDB_def)
  with logout_keeps_master_key[of world_signed_up]
  have n: "fst (loadMasterKeyFromIndexedDB (dev (handleLogout world_signed_up))) = Some 10"
    by simp
  from b k l p m n login_after_logout show ?thesis by simp
qed

end
